theory Spec2Isabelle
  imports Complex_Main
begin

section \<open>The request and response models (app/models/schemas.py)\<close>

text \<open>
  The Whisp API receives a JSON body, validates it against the pydantic model
  \<open>AnalyzeRequest\<close> and hands the validated request to \<open>analyze_plots\<close>.
  A finite float is modelled as the real number it stands for: every comparison the
  service makes on floats is exact.
\<close>

datatype InputType = GEE_ASSET | GEOJSON

datatype OutputUnit = HECTARES | PERCENT



fun OutputUnit_value :: "OutputUnit \<Rightarrow> string" where
  "OutputUnit_value HECTARES = ''ha''"
| "OutputUnit_value PERCENT = ''percent''"

record AnalyzeRequest =
  input_type :: InputType
  input_data :: string
  output_unit :: OutputUnit
  calculate_risk :: bool
  ind_1_threshold :: real
  ind_2_threshold :: real
  ind_3_threshold :: real
  ind_4_threshold :: real

text \<open>
  A JSON number arrives as a Python float, a binary64 value: \<open>json.loads\<close> reads
  \<open>1e400\<close> as \<open>inf\<close> and accepts the literals \<open>NaN\<close>, \<open>Infinity\<close> and
  \<open>-Infinity\<close>, so a float is a finite number, an infinity or NaN.
\<close>

datatype py_float = Finite real | Infinity | Neg_Infinity | NaN















text \<open>
  A cell of a table: a missing value (\<open>None\<close> or NaN), a finite number, an infinite
  number (\<open>True\<close> for the positive one) or a string.
\<close>

datatype cell = Null | Number real | Text string | Infinite bool

fun cell_of_float :: "py_float \<Rightarrow> cell" where
  "cell_of_float (Finite x) = Number x"
| "cell_of_float Infinity = Infinite True"
| "cell_of_float Neg_Infinity = Infinite False"
| "cell_of_float NaN = Null"

type_synonym DataFrame = "(string \<times> cell list) list"

record AnalyzeResponse =
  status :: string
  num_features :: int
  response_output_unit :: string
  risk_calculated :: bool
  results :: "(string \<times> cell) list list"
  message :: "string option"

datatype HTTPException = HTTPException (status_code : nat) (detail : string)

section \<open>Settings and the runtime configuration (app/core/config.py)\<close>

record Settings =
  API_VERSION :: string
  GEE_PROJECT :: "string option"
  WHISP_THRESHOLD_TO_DRIVE :: int

definition settings :: Settings where
  "settings = \<lparr>API_VERSION = ''1.0.0'', GEE_PROJECT = None, WHISP_THRESHOLD_TO_DRIVE = 500\<rparr>"

text \<open>
  \<open>parameters.config_runtime\<close> is the process-global module whose attribute
  \<open>percent_or_ha\<close> the statistics code reads. Its other attributes are whatever the
  record extension holds.
\<close>

record config_runtime =
  percent_or_ha :: string

section \<open>The collaborators of the endpoint\<close>

text \<open>
  Everything \<open>analyze_plots\<close> calls outside this service is a field of the
  environment: Earth Engine (\<open>ee\<close>), \<open>geemap\<close>, the JSON parser, and the Whisp
  modules \<open>modules.stats\<close>, \<open>modules.risk\<close> and \<open>modules.utils\<close>. A call either
  returns a value or raises; a raised exception is the \<open>Inl\<close> of its message
  (\<open>str(e)\<close>). \<open>get_stats\<close> reads the runtime configuration, so it takes it as an
  argument. \<open>to_float\<close> is the float parser behind \<open>pd.to_numeric\<close>: it answers
  for a string that reads as a float and is \<open>None\<close> for any other;
  \<open>errors_ignore_accepted\<close> says whether the installed pandas still accepts
  \<open>errors='ignore'\<close>.
\<close>

record ('fc, 'js, 'c) env =
  ee_Initialize :: "string option \<Rightarrow> string + unit"
  ee_FeatureCollection_asset :: "string \<Rightarrow> string + 'fc"
  json_loads :: "string \<Rightarrow> string + 'js"
  ee_FeatureCollection_dict :: "'js \<Rightarrow> string + 'fc"
  size_getInfo :: "'fc \<Rightarrow> string + int"
  get_stats :: "'c config_runtime_scheme \<Rightarrow> 'fc \<Rightarrow> string + 'fc"
  ee_to_pandas :: "'fc \<Rightarrow> string + DataFrame"
  collection_properties_to_df :: "'fc \<Rightarrow> string + DataFrame"
  to_float :: "string \<Rightarrow> py_float option"
  errors_ignore_accepted :: bool
  whisp_risk :: "DataFrame \<Rightarrow> real \<Rightarrow> real \<Rightarrow> real \<Rightarrow> real \<Rightarrow> string + DataFrame"

text \<open>
  The calls a run makes, in order. \<open>Call_FeatureCollection\<close> is the loading of the
  input (\<open>ee.FeatureCollection\<close> on an asset path, \<open>geojson_to_ee\<close> on a GeoJSON
  string), \<open>Call_get_stats u\<close> records the value of \<open>config.percent_or_ha\<close> that
  the statistics code finds, \<open>Set_percent_or_ha u\<close> an assignment to it, and
  \<open>Call_fc_to_dataframe n\<close> the feature count passed to the conversion.
\<close>

datatype event =
    Call_initialize_gee
  | Call_FeatureCollection
  | Call_size_getInfo
  | Set_percent_or_ha string
  | Call_get_stats string
  | Call_fc_to_dataframe int
  | Call_ee_to_pandas
  | Call_collection_properties_to_df
  | Call_whisp_risk

section \<open>The routes (app/api/routes.py)\<close>

text \<open>\<open>str(n)\<close> for the f-strings of the messages.\<close>

fun str_nat :: "nat \<Rightarrow> string" where
  "str_nat n =
     (if n < 10 then [''0123456789'' ! n]
      else str_nat (n div 10) @ [''0123456789'' ! (n mod 10)])"

declare str_nat.simps [simp del]

definition str_int :: "int \<Rightarrow> string" where
  "str_int i = (if i < 0 then ''-'' @ str_nat (nat (- i)) else str_nat (nat i))"

text \<open>
  \<open>initialize_gee\<close>: with a project when \<open>settings.GEE_PROJECT\<close> is truthy (neither
  \<open>None\<close> nor the empty string); any exception gives \<open>False\<close>.
\<close>

definition initialize_gee :: "('fc, 'js, 'c) env \<Rightarrow> Settings \<Rightarrow> bool" where
  "initialize_gee e s =
     (case (if GEE_PROJECT s \<noteq> None \<and> GEE_PROJECT s \<noteq> Some []
            then ee_Initialize e (GEE_PROJECT s) else ee_Initialize e None) of
        Inl _ \<Rightarrow> False
      | Inr _ \<Rightarrow> True)"

definition geojson_to_ee :: "('fc, 'js, 'c) env \<Rightarrow> string \<Rightarrow> string + 'fc" where
  "geojson_to_ee e geojson_str =
     (case json_loads e geojson_str of
        Inl err \<Rightarrow> Inl (''Failed to parse GeoJSON: '' @ err)
      | Inr geojson_dict \<Rightarrow>
          (case ee_FeatureCollection_dict e geojson_dict of
             Inl err \<Rightarrow> Inl (''Failed to parse GeoJSON: '' @ err)
           | Inr fc \<Rightarrow> Inr fc))"

text \<open>
  \<open>fc_to_dataframe\<close>: \<open>geemap.ee_to_pandas\<close> up to 500 features, the custom
  \<open>collection_properties_to_df\<close> beyond; the second component lists the calls made.
\<close>

definition fc_to_dataframe ::
  "('fc, 'js, 'c) env \<Rightarrow> 'fc \<Rightarrow> int \<Rightarrow> (string + DataFrame) \<times> event list" where
  "fc_to_dataframe e fc n =
     (if n \<le> 500 then
        (case ee_to_pandas e fc of
           Inl err \<Rightarrow> (Inl (''Failed to convert FeatureCollection to DataFrame: '' @ err),
                       [Call_fc_to_dataframe n, Call_ee_to_pandas])
         | Inr df \<Rightarrow> (Inr df, [Call_fc_to_dataframe n, Call_ee_to_pandas]))
      else
        (case collection_properties_to_df e fc of
           Inl err \<Rightarrow> (Inl (''Failed to convert FeatureCollection to DataFrame: '' @ err),
                       [Call_fc_to_dataframe n, Call_collection_properties_to_df])
         | Inr df \<Rightarrow> (Inr df, [Call_fc_to_dataframe n, Call_collection_properties_to_df])))"

subsection \<open>Numeric coercion of the columns\<close>

text \<open>
  What \<open>pd.to_numeric\<close> makes of one value when the whole column converts: a number
  and a missing value stay, the empty string becomes the missing value NaN, and any
  other string is parsed as a float (\<open>parse\<close>, which is \<open>None\<close> for a string that is
  no float). \<open>None\<close> here is a value that does not convert.
\<close>

fun numeric_cell :: "(string \<Rightarrow> py_float option) \<Rightarrow> cell \<Rightarrow> cell option" where
  "numeric_cell parse Null = Some Null"
| "numeric_cell parse (Number x) = Some (Number x)"
| "numeric_cell parse (Infinite b) = Some (Infinite b)"
| "numeric_cell parse (Text s) =
     (if s = [] then Some Null else map_option cell_of_float (parse s))"

text \<open>
  \<open>pd.to_numeric(column, errors='ignore')\<close> works on a whole column. Where pandas
  accepts \<open>errors='ignore'\<close>: when every value converts, the converted column is
  returned; when one value does not, the input column is returned as it is ("invalid
  parsing will return the input"). Where pandas has removed \<open>errors='ignore'\<close>
  (\<open>accepted\<close> is false), the call raises a \<open>ValueError\<close>.
\<close>

definition pd_to_numeric ::
  "bool \<Rightarrow> (string \<Rightarrow> py_float option) \<Rightarrow> cell list \<Rightarrow> string + cell list" where
  "pd_to_numeric accepted parse col =
     (if \<not> accepted then Inl ''invalid error value specified''
      else case those (map (numeric_cell parse) col) of
             Some col' \<Rightarrow> Inr col'
           | None \<Rightarrow> Inr col)"

text \<open>What a cell of a column that converts becomes.\<close>

definition parsed_cell :: "(string \<Rightarrow> py_float option) \<Rightarrow> cell \<Rightarrow> cell" where
  "parsed_cell parse c =
     (case c of
        Text s \<Rightarrow>
          (if s = [] then Null
           else case parse s of Some x \<Rightarrow> cell_of_float x | None \<Rightarrow> c)
      | _ \<Rightarrow> c)"

definition metadata_columns :: "string list" where
  "metadata_columns =
     [''Plot_ID'', ''Geometry_type'', ''Country'', ''Admin_Level_1'',
      ''In_waterbody'', ''Unit'', ''geoid'', ''system:index'', ''id'', ''name'']"

text \<open>
  The loop over \<open>df.columns\<close> of \<open>analyze_plots\<close>: the column is assigned what
  \<open>pd.to_numeric\<close> returns, and the bare \<open>except: pass\<close> leaves it as it is when the
  call raises.
\<close>

definition coerce_numeric_columns ::
  "bool \<Rightarrow> (string \<Rightarrow> py_float option) \<Rightarrow> DataFrame \<Rightarrow> DataFrame" where
  "coerce_numeric_columns accepted parse df =
     map (\<lambda>(col, vs).
            if col \<notin> set metadata_columns then
              (case pd_to_numeric accepted parse vs of
                 Inl _ \<Rightarrow> (col, vs)
               | Inr vs' \<Rightarrow> (col, vs'))
            else (col, vs)) df"

text \<open>
  \<open>df.to_dict(orient="records")\<close>: one dictionary per row. The columns of a
  DataFrame have one length, the number of rows.
\<close>

definition n_rows :: "DataFrame \<Rightarrow> nat" where
  "n_rows df = (case df of [] \<Rightarrow> 0 | (_, vs) # _ \<Rightarrow> length vs)"

definition to_dict_records :: "DataFrame \<Rightarrow> (string \<times> cell) list list" where
  "to_dict_records df = map (\<lambda>i. map (\<lambda>(col, vs). (col, vs ! i)) df) [0..<n_rows df]"

subsection \<open>The analyze endpoint\<close>

text \<open>
  A run returns its outcome (the raised \<open>HTTPException\<close> or the response), the calls
  it made, and the runtime configuration it leaves behind.
\<close>

type_synonym 'c run = "(HTTPException + AnalyzeResponse) \<times> event list \<times> 'c config_runtime_scheme"

definition outcome :: "'c run \<Rightarrow> HTTPException + AnalyzeResponse" where
  "outcome r = fst r"

definition calls :: "'c run \<Rightarrow> event list" where
  "calls r = fst (snd r)"

definition config_after :: "'c run \<Rightarrow> 'c config_runtime_scheme" where
  "config_after r = snd (snd r)"

text \<open>
  The input parsing of \<open>analyze_plots\<close>, by \<open>request.input_type\<close>. The final
  \<open>else\<close> of the source (HTTP 400, invalid input type) has no case here: a validated
  request holds one of the two members of the enumeration.
\<close>

definition parse_input :: "('fc, 'js, 'c) env \<Rightarrow> AnalyzeRequest \<Rightarrow> HTTPException + 'fc" where
  "parse_input e request =
     (case input_type request of
        GEE_ASSET \<Rightarrow>
          (case ee_FeatureCollection_asset e (input_data request) of
             Inl err \<Rightarrow> Inl (HTTPException 400 (''Failed to load GEE asset: '' @ err))
           | Inr fc \<Rightarrow> Inr fc)
      | GEOJSON \<Rightarrow>
          (case geojson_to_ee e (input_data request) of
             Inl err \<Rightarrow> Inl (HTTPException 400 (''Failed to parse GeoJSON: '' @ err))
           | Inr fc \<Rightarrow> Inr fc))"

text \<open>
  The block "Run Whisp analysis": the requested unit is written into
  \<open>config.percent_or_ha\<close>, the statistics run, the table is converted and coerced,
  and the original unit is written back. The write-back is the last statement of the
  \<open>try\<close> block, so an exception of \<open>get_stats\<close> or \<open>fc_to_dataframe\<close> skips it.
  The module \<open>parameters.config_runtime\<close> is taken to be importable.
\<close>

definition run_whisp_analysis ::
  "('fc, 'js, 'c) env \<Rightarrow> AnalyzeRequest \<Rightarrow> 'fc \<Rightarrow> int \<Rightarrow> 'c config_runtime_scheme
   \<Rightarrow> (HTTPException + DataFrame) \<times> event list \<times> 'c config_runtime_scheme" where
  "run_whisp_analysis e request feature_collection n config =
     (let original_unit = percent_or_ha config;
          config1 = config\<lparr>percent_or_ha := OutputUnit_value (output_unit request)\<rparr>;
          tr1 = [Set_percent_or_ha (OutputUnit_value (output_unit request)),
                 Call_get_stats (percent_or_ha config1)]
      in case get_stats e config1 feature_collection of
           Inl err \<Rightarrow>
             (Inl (HTTPException 500 (''Failed to run analysis: '' @ err)), tr1, config1)
         | Inr stats_fc \<Rightarrow>
             (case fc_to_dataframe e stats_fc n of
                (Inl err, tr2) \<Rightarrow>
                  (Inl (HTTPException 500 (''Failed to run analysis: '' @ err)),
                   tr1 @ tr2, config1)
              | (Inr df, tr2) \<Rightarrow>
                  (Inr (coerce_numeric_columns (errors_ignore_accepted e) (to_float e) df),
                   tr1 @ tr2 @ [Set_percent_or_ha original_unit],
                   config1\<lparr>percent_or_ha := original_unit\<rparr>)))"

definition too_large_response :: "Settings \<Rightarrow> AnalyzeRequest \<Rightarrow> int \<Rightarrow> AnalyzeResponse" where
  "too_large_response s request n =
     \<lparr>status = ''too_large'', num_features = n,
      response_output_unit = OutputUnit_value (output_unit request),
      risk_calculated = False, results = [],
      message = Some (''Dataset has '' @ str_int n
        @ '' features, which exceeds the limit of '' @ str_int (WHISP_THRESHOLD_TO_DRIVE s)
        @ ''. Please use the Google Drive export workflow or reduce the number of features.'')\<rparr>"

definition success_response :: "AnalyzeRequest \<Rightarrow> int \<Rightarrow> DataFrame \<Rightarrow> AnalyzeResponse" where
  "success_response request n df =
     \<lparr>status = ''success'', num_features = n,
      response_output_unit = OutputUnit_value (output_unit request),
      risk_calculated = calculate_risk request, results = to_dict_records df,
      message = Some (''Successfully analyzed '' @ str_int n @ '' features'')\<rparr>"

text \<open>
  The handler. Every exception of a collaborator is caught by the \<open>try\<close> block around
  its call and raised again as an \<open>HTTPException\<close>, which the outer handler passes
  on; building the response is taken not to raise.
\<close>

definition analyze_plots ::
  "('fc, 'js, 'c) env \<Rightarrow> Settings \<Rightarrow> AnalyzeRequest \<Rightarrow> 'c config_runtime_scheme \<Rightarrow> 'c run" where
  "analyze_plots e s request config =
     (if \<not> initialize_gee e s then
        (Inl (HTTPException 500
           ''Failed to initialize Google Earth Engine. Check authentication.''),
         [Call_initialize_gee], config)
      else
        (case parse_input e request of
           Inl ex \<Rightarrow> (Inl ex, [Call_initialize_gee, Call_FeatureCollection], config)
         | Inr feature_collection \<Rightarrow>
             (case size_getInfo e feature_collection of
                Inl err \<Rightarrow>
                  (Inl (HTTPException 400 (''Failed to get feature count: '' @ err)),
                   [Call_initialize_gee, Call_FeatureCollection, Call_size_getInfo], config)
              | Inr n \<Rightarrow>
                  if n = 0 then
                    (Inl (HTTPException 400 ''Input contains no features''),
                     [Call_initialize_gee, Call_FeatureCollection, Call_size_getInfo], config)
                  else if n > WHISP_THRESHOLD_TO_DRIVE s then
                    (Inr (too_large_response s request n),
                     [Call_initialize_gee, Call_FeatureCollection, Call_size_getInfo], config)
                  else
                    (case run_whisp_analysis e request feature_collection n config of
                       (Inl ex, tr, config') \<Rightarrow>
                         (Inl ex,
                          [Call_initialize_gee, Call_FeatureCollection, Call_size_getInfo] @ tr,
                          config')
                     | (Inr df, tr, config') \<Rightarrow>
                         if calculate_risk request then
                           (case whisp_risk e df (ind_1_threshold request)
                                   (ind_2_threshold request) (ind_3_threshold request)
                                   (ind_4_threshold request) of
                              Inl err \<Rightarrow>
                                (Inl (HTTPException 500 (''Failed to calculate risk: '' @ err)),
                                 [Call_initialize_gee, Call_FeatureCollection, Call_size_getInfo]
                                 @ tr @ [Call_whisp_risk], config')
                            | Inr df' \<Rightarrow>
                                (Inr (success_response request n df'),
                                 [Call_initialize_gee, Call_FeatureCollection, Call_size_getInfo]
                                 @ tr @ [Call_whisp_risk], config'))
                         else
                           (Inr (success_response request n df),
                            [Call_initialize_gee, Call_FeatureCollection, Call_size_getInfo] @ tr,
                            config')))))"




subsection \<open>A fixed backend for running the model\<close>

text \<open>
  A small stand-in for Earth Engine and the Whisp modules, used to run the model on
  concrete requests: three assets (an empty one, one of two plots, one of 501 plots),
  statistics that attach the unit they were computed in, and a float parser for plain
  decimals (digits, optionally a point and more digits).
\<close>

type_synonym feature = "(string \<times> cell) list"

definition parse_decimal :: "string \<Rightarrow> real option" where
  "parse_decimal s =
     (let a = takeWhile (\<lambda>c. c \<noteq> CHR ''.'') s;
          b = drop 1 (dropWhile (\<lambda>c. c \<noteq> CHR ''.'') s);
          num = foldl (\<lambda>n c. 10 * n + (of_char c - 48)) (0::nat)
      in if a \<noteq> [] \<and> list_all (\<lambda>c. c \<in> set ''0123456789'') (a @ b)
         then Some (real (num a) + real (num b) / 10 ^ length b) else None)"

definition sample_to_float :: "string \<Rightarrow> py_float option" where
  "sample_to_float s = map_option Finite (parse_decimal s)"

definition plot_1 :: feature where
  "plot_1 = [(''Plot_ID'', Text ''1''), (''Country'', Text ''Ghana''), (''Cocoa'', Text ''1.5'')]"

definition plot_2 :: feature where
  "plot_2 = [(''Plot_ID'', Text ''2''), (''Country'', Text ''Ghana''), (''Cocoa'', Text ''0.25'')]"

definition sample_asset :: "string \<Rightarrow> string + feature list" where
  "sample_asset path =
     (if path = ''projects/ee-whisp/assets/empty'' then Inr []
      else if path = ''projects/ee-whisp/assets/example_plots'' then Inr [plot_1, plot_2]
      else if path = ''projects/ee-whisp/assets/large'' then Inr (replicate 501 plot_1)
      else Inl ''asset not found'')"

definition properties_to_df :: "feature list \<Rightarrow> DataFrame" where
  "properties_to_df fc =
     (case fc of
        [] \<Rightarrow> []
      | f # _ \<Rightarrow>
          map (\<lambda>(k, _). (k, map (\<lambda>g. case map_of g k of None \<Rightarrow> Null | Some v \<Rightarrow> v) fc)) f)"

definition sample_env :: "(feature list, feature list, unit) env" where
  "sample_env =
     \<lparr>ee_Initialize = (\<lambda>_. Inr ()),
      ee_FeatureCollection_asset = sample_asset,
      json_loads = (\<lambda>_. Inl ''Expecting value''),
      ee_FeatureCollection_dict = Inr,
      size_getInfo = (\<lambda>fc. Inr (int (length fc))),
      get_stats = (\<lambda>config fc. Inr (map (\<lambda>f. f @ [(''Unit'', Text (percent_or_ha config))]) fc)),
      ee_to_pandas = (\<lambda>fc. Inr (properties_to_df fc)),
      collection_properties_to_df = (\<lambda>fc. Inr (properties_to_df fc)),
      to_float = sample_to_float,
      errors_ignore_accepted = True,
      whisp_risk = (\<lambda>df _ _ _ _. Inr df)\<rparr>"

definition failing_env :: "(feature list, feature list, unit) env" where
  "failing_env = sample_env\<lparr>get_stats := (\<lambda>_ _. Inl ''Computation timed out.'')\<rparr>"

definition sample_request :: AnalyzeRequest where
  "sample_request =
     \<lparr>input_type = GEE_ASSET, input_data = ''projects/ee-whisp/assets/example_plots'',
      output_unit = PERCENT, calculate_risk = False,
      ind_1_threshold = 10, ind_2_threshold = 10, ind_3_threshold = 0, ind_4_threshold = 0\<rparr>"

definition empty_request :: AnalyzeRequest where
  "empty_request = sample_request\<lparr>input_data := ''projects/ee-whisp/assets/empty''\<rparr>"

definition large_request :: AnalyzeRequest where
  "large_request = sample_request\<lparr>input_data := ''projects/ee-whisp/assets/large''\<rparr>"






section \<open>The aggregation and classification engine\<close>

text \<open>
  The unit conversion, the table builder and the risk classifier run inside
  \<open>get_stats\<close> and \<open>whisp_risk\<close> (\<open>modules/stats.py\<close>, \<open>modules/risk.py\<close>), which
  the service imports from the root of the repository; their sources are not among the
  files of the service. The definitions of this section follow the specification's
  description of them (sections 3, 4.4, 4.5 and 7).
\<close>

datatype unit_kind = Area | Percent_of_plot | Categorical | Boolean

datatype requested_unit = Requested_area | Requested_percent_of_plot

datatype raw_value = Missing | Numeric real | Textual string | Truth bool

datatype engine_error =
  RegistryError | CombinationError | ReductionError | ClassificationError | ConversionError

record DatasetDescriptor =
  dataset_id :: string
  category :: string
  dataset_unit :: unit_kind

record Plot =
  plot_id :: string
  area :: real

text \<open>
  Modelled from the spec: the first half of the unit conversion of the Statistics Table
  Builder (section 4.4), missing with \<open>modules/stats.py\<close>. A layer declared \<open>area\<close>
  is divided by the plot area, times 100. \<open>rnd\<close> is the rounding of one
  floating-point operation; exact arithmetic is \<open>rnd = (\<lambda>x. x)\<close>.
\<close>

definition area_to_percent :: "(real \<Rightarrow> real) \<Rightarrow> real \<Rightarrow> real \<Rightarrow> real" where
  "area_to_percent rnd x a = rnd (rnd (x / a) * 100)"

text \<open>
  Modelled from the spec: the second half of the same conversion. A layer declared
  \<open>percent-of-plot\<close> is multiplied by the plot area, divided by 100.
\<close>

definition percent_to_area :: "(real \<Rightarrow> real) \<Rightarrow> real \<Rightarrow> real \<Rightarrow> real" where
  "percent_to_area rnd x a = rnd (rnd (x * a) / 100)"

text \<open>
  Modelled from the spec: which pairs of declared and requested unit are a conversion
  between area and percent (section 4.4); the conversion code is missing with
  \<open>modules/stats.py\<close>.
\<close>

fun needs_conversion :: "unit_kind \<Rightarrow> requested_unit \<Rightarrow> bool" where
  "needs_conversion Area Requested_percent_of_plot = True"
| "needs_conversion Percent_of_plot Requested_area = True"
| "needs_conversion _ _ = False"

text \<open>
  Modelled from the spec: the conversion of one statistic (sections 3, 4.4 and 7),
  missing with \<open>modules/stats.py\<close>: a function of the raw value, the layer's declared
  unit, the plot area and the requested unit. A categorical or boolean layer is never
  converted, and a layer already in the requested unit is left as it is. A conversion
  between area and percent on a plot whose area is not positive, or of a value that is
  not a number, is a \<open>ConversionError\<close>; a null value stays null.
\<close>

fun convert ::
  "(real \<Rightarrow> real) \<Rightarrow> raw_value \<Rightarrow> unit_kind \<Rightarrow> real \<Rightarrow> requested_unit
   \<Rightarrow> engine_error + raw_value" where
  "convert rnd v Categorical a r = Inr v"
| "convert rnd v Boolean a r = Inr v"
| "convert rnd v Area a Requested_area = Inr v"
| "convert rnd v Percent_of_plot a Requested_percent_of_plot = Inr v"
| "convert rnd v Area a Requested_percent_of_plot =
     (if a \<le> 0 then Inl ConversionError
      else case v of
             Missing \<Rightarrow> Inr Missing
           | Numeric x \<Rightarrow> Inr (Numeric (area_to_percent rnd x a))
           | _ \<Rightarrow> Inl ConversionError)"
| "convert rnd v Percent_of_plot a Requested_area =
     (if a \<le> 0 then Inl ConversionError
      else case v of
             Missing \<Rightarrow> Inr Missing
           | Numeric x \<Rightarrow> Inr (Numeric (percent_to_area rnd x a))
           | _ \<Rightarrow> Inl ConversionError)"

record table_row =
  row_plot :: Plot
  row_cells :: "(string \<times> raw_value) list"

text \<open>
  Modelled from the spec: one cell of the statistics table (sections 4.4 and 7), missing
  with \<open>modules/stats.py\<close>. A cell whose conversion fails is marked null; the error
  goes no further.
\<close>

definition build_cell ::
  "(real \<Rightarrow> real) \<Rightarrow> requested_unit \<Rightarrow> Plot \<Rightarrow> DatasetDescriptor \<Rightarrow> raw_value \<Rightarrow> raw_value" where
  "build_cell rnd r p d v =
     (case convert rnd v (dataset_unit d) (area p) r of Inl _ \<Rightarrow> Missing | Inr v' \<Rightarrow> v')"

text \<open>
  Modelled from the spec: one row of the statistics table (sections 3 and 4.4), missing
  with \<open>modules/stats.py\<close>: the plot and one cell per registered dataset, in the order
  of the registry. The raw matrix gives the reducer's value for a plot and a dataset.
\<close>

definition build_row ::
  "(real \<Rightarrow> real) \<Rightarrow> DatasetDescriptor list \<Rightarrow> (string \<Rightarrow> string \<Rightarrow> raw_value)
   \<Rightarrow> requested_unit \<Rightarrow> Plot \<Rightarrow> table_row" where
  "build_row rnd registry raw_matrix r p =
     \<lparr>row_plot = p,
      row_cells = map (\<lambda>d. (dataset_id d,
                     build_cell rnd r p d (raw_matrix (plot_id p) (dataset_id d)))) registry\<rparr>"

text \<open>
  Modelled from the spec: the Statistics Table Builder (section 4.4),
  \<open>build(raw_matrix, plots, requested_unit)\<close>, missing with \<open>modules/stats.py\<close>: one
  row per plot, in the order of the plots.
\<close>

definition build ::
  "(real \<Rightarrow> real) \<Rightarrow> DatasetDescriptor list \<Rightarrow> (string \<Rightarrow> string \<Rightarrow> raw_value)
   \<Rightarrow> Plot list \<Rightarrow> requested_unit \<Rightarrow> table_row list" where
  "build rnd registry raw_matrix plots r = map (build_row rnd registry raw_matrix r) plots"

datatype RiskIndicator = Indicator_1 | Indicator_2 | Indicator_3 | Indicator_4

datatype indicator_state = exceeded | not_exceeded | unknown

datatype RiskLabel = low | high | more_info_needed

record indicator_states =
  state_1 :: indicator_state
  state_2 :: indicator_state
  state_3 :: indicator_state
  state_4 :: indicator_state

fun state_of :: "indicator_states \<Rightarrow> RiskIndicator \<Rightarrow> indicator_state" where
  "state_of st Indicator_1 = state_1 st"
| "state_of st Indicator_2 = state_2 st"
| "state_of st Indicator_3 = state_3 st"
| "state_of st Indicator_4 = state_4 st"

text \<open>
  Modelled from the spec: the state of one risk indicator (sections 3 and 4.5), missing
  with \<open>modules/risk.py\<close>. The indicator is \<open>exceeded\<close> when its contributing
  statistic is at least the threshold, \<open>not_exceeded\<close> when it is below, \<open>unknown\<close>
  when the statistic is null. A contributing column that is absent from the row is a
  \<open>ClassificationError\<close>; the spec is silent on a contributing value that is neither
  null nor a number, and the model reports it as the same error instead of choosing a
  state.
\<close>

definition indicator ::
  "(string \<times> raw_value) list \<Rightarrow> string \<Rightarrow> real \<Rightarrow> engine_error + indicator_state" where
  "indicator cells col threshold =
     (case map_of cells col of
        None \<Rightarrow> Inl ClassificationError
      | Some Missing \<Rightarrow> Inr unknown
      | Some (Numeric x) \<Rightarrow> Inr (if x \<ge> threshold then exceeded else not_exceeded)
      | Some _ \<Rightarrow> Inl ClassificationError)"

text \<open>
  Modelled from the spec: the classification of one plot (section 4.5), missing with
  \<open>modules/risk.py\<close>: the four indicator states, each from its own source column and
  threshold, and the label the rule table gives them. The rule table is an open
  question of the spec (section 9), so it is the parameter \<open>rule\<close>.
\<close>

definition classify_row ::
  "(RiskIndicator \<Rightarrow> string) \<Rightarrow> (RiskIndicator \<Rightarrow> real) \<Rightarrow> (indicator_states \<Rightarrow> RiskLabel)
   \<Rightarrow> table_row \<Rightarrow> engine_error + indicator_states \<times> RiskLabel" where
  "classify_row source thresholds rule row =
     (case (indicator (row_cells row) (source Indicator_1) (thresholds Indicator_1),
            indicator (row_cells row) (source Indicator_2) (thresholds Indicator_2),
            indicator (row_cells row) (source Indicator_3) (thresholds Indicator_3),
            indicator (row_cells row) (source Indicator_4) (thresholds Indicator_4)) of
        (Inr s1, Inr s2, Inr s3, Inr s4) \<Rightarrow>
          (let st = \<lparr>state_1 = s1, state_2 = s2, state_3 = s3, state_4 = s4\<rparr>
           in Inr (st, rule st))
      | _ \<Rightarrow> Inl ClassificationError)"

text \<open>
  Modelled from the spec: the Risk Classifier (section 4.5),
  \<open>classify(table, thresholds)\<close>, missing with \<open>modules/risk.py\<close>: the rows are
  classified in order, and the first \<open>ClassificationError\<close> aborts the request.
\<close>

fun classify ::
  "(RiskIndicator \<Rightarrow> string) \<Rightarrow> (RiskIndicator \<Rightarrow> real) \<Rightarrow> (indicator_states \<Rightarrow> RiskLabel)
   \<Rightarrow> table_row list \<Rightarrow> engine_error + (indicator_states \<times> RiskLabel) list" where
  "classify source thresholds rule [] = Inr []"
| "classify source thresholds rule (row # rows) =
     (case classify_row source thresholds rule row of
        Inl err \<Rightarrow> Inl err
      | Inr x \<Rightarrow>
          (case classify source thresholds rule rows of
             Inl err \<Rightarrow> Inl err
           | Inr xs \<Rightarrow> Inr (x # xs)))"

subsection \<open>The scenarios of the specification\<close>

text \<open>
  Section 8 of the specification: a registry of three datasets, two plots of 10 ha and
  0 ha, and a plot whose four contributing statistics are 10.0, 9.9, null and 5.0.
\<close>

definition scenario_registry :: "DatasetDescriptor list" where
  "scenario_registry =
     [\<lparr>dataset_id = ''tree_cover'', category = ''tree-cover'', dataset_unit = Area\<rparr>,
      \<lparr>dataset_id = ''commodity'', category = ''commodity'', dataset_unit = Percent_of_plot\<rparr>,
      \<lparr>dataset_id = ''water'', category = ''water'', dataset_unit = Boolean\<rparr>]"

definition scenario_plots :: "Plot list" where
  "scenario_plots = [\<lparr>plot_id = ''1'', area = 10\<rparr>, \<lparr>plot_id = ''2'', area = 0\<rparr>]"

definition scenario_raw :: "string \<Rightarrow> string \<Rightarrow> raw_value" where
  "scenario_raw pid did =
     (if did = ''tree_cover'' then Numeric 5
      else if did = ''commodity'' then Numeric 20 else Truth True)"

definition scenario_source :: "RiskIndicator \<Rightarrow> string" where
  "scenario_source k =
     (case k of
        Indicator_1 \<Rightarrow> ''tree_cover''
      | Indicator_2 \<Rightarrow> ''commodity''
      | Indicator_3 \<Rightarrow> ''disturbance_before''
      | Indicator_4 \<Rightarrow> ''disturbance_after'')"

definition scenario_row :: table_row where
  "scenario_row =
     \<lparr>row_plot = \<lparr>plot_id = ''1'', area = 10\<rparr>,
      row_cells = [(''tree_cover'', Numeric 10), (''commodity'', Numeric (99 / 10)),
                   (''disturbance_before'', Missing), (''disturbance_after'', Numeric 5)]\<rparr>"

definition cleared_row :: table_row where
  "cleared_row =
     \<lparr>row_plot = \<lparr>plot_id = ''2'', area = 4\<rparr>,
      row_cells = [(''tree_cover'', Numeric 0), (''commodity'', Numeric 80),
                   (''disturbance_before'', Numeric 30), (''disturbance_after'', Missing)]\<rparr>"

text \<open>A stand-in for the rule table, which the specification leaves open.\<close>

definition placeholder_rule :: "indicator_states \<Rightarrow> RiskLabel" where
  "placeholder_rule st = more_info_needed"

section \<open>The arithmetic of floats\<close>

text \<open>
  The statistics are Python floats, IEEE 754 binary64 numbers: every arithmetic operation
  returns the exact result rounded to the nearest number with a significand of 53 bits,
  ties to the even significand. \<open>min_normal\<close> is the smallest positive normal number,
  \<open>overflow_bound\<close> the first power of two that is too large to be one, and
  \<open>max_binary64\<close> the largest finite number.
\<close>

definition min_normal :: real where
  "min_normal = 2 powr (- 1022)"

definition overflow_bound :: real where
  "overflow_bound = 2 powr 1024"

definition max_binary64 :: real where
  "max_binary64 = overflow_bound - overflow_bound / 2 ^ 53"

definition round_half_even :: "real \<Rightarrow> int" where
  "round_half_even q =
     (let n = \<lfloor>q\<rfloor>; f = q - of_int n
      in if f < 1 / 2 then n else if 1 / 2 < f then n + 1
         else if even n then n else n + 1)"

text \<open>
  The rounding of a real number to 53 bits. The exponent is not allowed below -1022, so
  that the numbers under \<open>min_normal\<close> are rounded to the subnormal grid of spacing
  \<open>2\<^sup>-\<^sup>1\<^sup>0\<^sup>7\<^sup>4\<close>, and the smallest of them to zero. The exponent is not bounded from
  above here: \<open>binary64\<close> adds the overflow.
\<close>

definition round_to_53_bits :: "real \<Rightarrow> real" where
  "round_to_53_bits y =
     (if y = 0 then 0
      else let e = max \<lfloor>log 2 \<bar>y\<bar>\<rfloor> (- 1022);
               ulp = 2 powr (of_int (e - 52))
           in of_int (round_half_even (y / ulp)) * ulp)"

text \<open>
  The float an exact result is stored as: a result that rounds to \<open>overflow_bound\<close> or
  beyond is an infinity.
\<close>

definition binary64 :: "real \<Rightarrow> py_float" where
  "binary64 y =
     (let r = round_to_53_bits y
      in if overflow_bound \<le> r then Infinity
         else if r \<le> - overflow_bound then Neg_Infinity
         else Finite r)"

text \<open>
  The magnitudes that stay among the normal numbers, away from underflow and overflow,
  when an operation moves them by less than a factor of two: from \<open>2\<^sup>-\<^sup>1\<^sup>0\<^sup>2\<^sup>1\<close> to
  \<open>2\<^sup>1\<^sup>0\<^sup>2\<^sup>3\<close>.
\<close>

definition in_normal_range :: "real \<Rightarrow> bool" where
  "in_normal_range t = (2 * min_normal \<le> \<bar>t\<bar> \<and> 2 * \<bar>t\<bar> \<le> overflow_bound)"

section \<open>Properties of the endpoint\<close>

subsection \<open>The fixed backend\<close>

lemma sample_initialize_gee: "initialize_gee sample_env settings"
  by (simp add: initialize_gee_def sample_env_def settings_def)

lemma sample_parse_empty: "parse_input sample_env empty_request = Inr []"
  by (simp add: parse_input_def sample_env_def empty_request_def sample_request_def
      sample_asset_def)

lemma sample_parse_large: "parse_input sample_env large_request = Inr (replicate 501 plot_1)"
  by (simp add: parse_input_def sample_env_def large_request_def sample_request_def
      sample_asset_def)

lemma parse_decimal_example: "parse_decimal ''1.5'' = Some (3 / 2)"
  by (simp add: parse_decimal_def)

lemma sample_to_float_examples:
  "sample_to_float ''1.5'' = Some (Finite (3 / 2))"
  "sample_to_float ''1'' = Some (Finite 1)"
  "sample_to_float ''abc'' = None"
  "sample_to_float [] = None"
  by (simp_all add: sample_to_float_def parse_decimal_def)

text \<open>
  A request for percentages on the asset of two plots, with the configuration at
  \<open>ha\<close>: the run writes \<open>percent\<close> into the configuration, the statistics see it,
  the numeric strings of the \<open>Cocoa\<close> column become numbers, and \<open>ha\<close> is written
  back.
\<close>

lemma sample_run:
  "analyze_plots sample_env settings sample_request \<lparr>percent_or_ha = ''ha''\<rparr> =
     (Inr (success_response sample_request 2
        [(''Plot_ID'', [Text ''1'', Text ''2'']),
         (''Country'', [Text ''Ghana'', Text ''Ghana'']),
         (''Cocoa'', [Number (3 / 2), Number (1 / 4)]),
         (''Unit'', [Text ''percent'', Text ''percent''])]),
      [Call_initialize_gee, Call_FeatureCollection, Call_size_getInfo,
       Set_percent_or_ha ''percent'', Call_get_stats ''percent'',
       Call_fc_to_dataframe 2, Call_ee_to_pandas, Set_percent_or_ha ''ha''],
      \<lparr>percent_or_ha = ''ha''\<rparr>)"
  by (simp add: analyze_plots_def initialize_gee_def sample_env_def settings_def
      parse_input_def sample_request_def sample_asset_def run_whisp_analysis_def Let_def
      fc_to_dataframe_def properties_to_df_def plot_1_def plot_2_def
      coerce_numeric_columns_def metadata_columns_def pd_to_numeric_def
      sample_to_float_def parse_decimal_def)

text \<open>
  The same request when the statistics raise: the handler answers 500 and the
  configuration stays at \<open>percent\<close>, since the write-back is skipped.
\<close>

lemma failed_run:
  "analyze_plots failing_env settings sample_request \<lparr>percent_or_ha = ''ha''\<rparr> =
     (Inl (HTTPException 500 ''Failed to run analysis: Computation timed out.''),
      [Call_initialize_gee, Call_FeatureCollection, Call_size_getInfo,
       Set_percent_or_ha ''percent'', Call_get_stats ''percent''],
      \<lparr>percent_or_ha = ''percent''\<rparr>)"
  by (simp add: analyze_plots_def initialize_gee_def failing_env_def sample_env_def
      settings_def parse_input_def sample_request_def sample_asset_def
      run_whisp_analysis_def Let_def)

subsection \<open>The calls of a run\<close>

lemma fc_to_dataframe_calls:
  "snd (fc_to_dataframe e fc n) =
     [Call_fc_to_dataframe n,
      if n \<le> 500 then Call_ee_to_pandas else Call_collection_properties_to_df]"
  by (simp add: fc_to_dataframe_def split: sum.splits)

lemma run_whisp_analysis_calls:
  assumes "ev \<in> set (fst (snd (run_whisp_analysis e request fc n config)))"
  shows "ev = Set_percent_or_ha (OutputUnit_value (output_unit request))
       \<or> ev = Call_get_stats (OutputUnit_value (output_unit request))
       \<or> ev = Set_percent_or_ha (percent_or_ha config)
       \<or> ev = Call_fc_to_dataframe n
       \<or> (ev = Call_ee_to_pandas \<and> n \<le> 500)
       \<or> (ev = Call_collection_properties_to_df \<and> \<not> n \<le> 500)"
proof (cases "get_stats e (config\<lparr>percent_or_ha := OutputUnit_value (output_unit request)\<rparr>) fc")
  case (Inl err)
  with assms show ?thesis by (auto simp: run_whisp_analysis_def Let_def)
next
  case (Inr stats_fc)
  obtain r tr where c: "fc_to_dataframe e stats_fc n = (r, tr)"
    by (cases "fc_to_dataframe e stats_fc n")
  with fc_to_dataframe_calls [of e stats_fc n]
  have tr: "tr = [Call_fc_to_dataframe n,
      if n \<le> 500 then Call_ee_to_pandas else Call_collection_properties_to_df]" by simp
  from assms Inr c tr show ?thesis
    by (cases r) (auto simp: run_whisp_analysis_def Let_def split: if_splits)
qed

lemma analyze_plots_calls:
  assumes "ev \<in> set (calls (analyze_plots e s request config))"
  shows "ev = Call_initialize_gee \<or> ev = Call_FeatureCollection \<or> ev = Call_size_getInfo
       \<or> ev = Call_whisp_risk
       \<or> (\<exists>fc n. n \<le> WHISP_THRESHOLD_TO_DRIVE s
             \<and> ev \<in> set (fst (snd (run_whisp_analysis e request fc n config))))"
  using assms unfolding analyze_plots_def calls_def
  by (auto split: if_splits sum.splits prod.splits) (metis fst_conv snd_conv not_le)+

subsection \<open>The configuration a run leaves behind\<close>

lemma run_whisp_analysis_config:
  "run_whisp_analysis e request fc n config = (Inr df, tr, config') \<Longrightarrow> config' = config"
  by (auto simp: run_whisp_analysis_def Let_def split: sum.splits prod.splits)

lemma run_whisp_analysis_error:
  "run_whisp_analysis e request fc n config = (Inl ex, tr, config') \<Longrightarrow>
     \<exists>err. ex = HTTPException 500 (''Failed to run analysis: '' @ err)"
  by (auto simp: run_whisp_analysis_def Let_def split: sum.splits prod.splits)

lemma analyze_plots_config:
  assumes "\<forall>err. outcome (analyze_plots e s request config)
             \<noteq> Inl (HTTPException 500 (''Failed to run analysis: '' @ err))"
  shows "config_after (analyze_plots e s request config) = config"
  using assms unfolding analyze_plots_def outcome_def config_after_def
  by (auto split: if_splits sum.splits prod.splits
      dest: run_whisp_analysis_config run_whisp_analysis_error)

lemma run_whisp_analysis_unit_independent:
  "fst (run_whisp_analysis e request fc n (config\<lparr>percent_or_ha := u\<rparr>))
     = fst (run_whisp_analysis e request fc n config)"
  by (simp add: run_whisp_analysis_def Let_def split: sum.splits prod.splits)

lemma analyze_plots_outcome_independent:
  "outcome (analyze_plots e s request (config\<lparr>percent_or_ha := u\<rparr>))
     = outcome (analyze_plots e s request config)"
proof -
  have "fst (run_whisp_analysis e request fc n (config\<lparr>percent_or_ha := u\<rparr>))
     = fst (run_whisp_analysis e request fc n config)" for fc n
    by (rule run_whisp_analysis_unit_independent)
  then show ?thesis
    unfolding analyze_plots_def outcome_def
    by (auto split: sum.splits prod.splits if_splits) (metis fst_conv sum.inject sum.distinct(1))+
qed

lemma run_whisp_analysis_config_after:
  "snd (snd (run_whisp_analysis e request fc n config)) = config
   \<or> snd (snd (run_whisp_analysis e request fc n config))
       = config\<lparr>percent_or_ha := OutputUnit_value (output_unit request)\<rparr>"
  by (auto simp: run_whisp_analysis_def Let_def split: sum.splits prod.splits)

lemma config_after_cases:
  "config_after (analyze_plots e s request config) = config
   \<or> config_after (analyze_plots e s request config)
       = config\<lparr>percent_or_ha := OutputUnit_value (output_unit request)\<rparr>"
  unfolding analyze_plots_def config_after_def
  using run_whisp_analysis_config_after [of e request _ _ config]
  by (auto split: sum.splits prod.splits if_splits) (metis snd_conv)+

lemma config_after_update:
  "\<exists>u. config_after (analyze_plots e s request config) = config\<lparr>percent_or_ha := u\<rparr>"
proof -
  have "config = config\<lparr>percent_or_ha := percent_or_ha config\<rparr>" by simp
  with config_after_cases [of e s request config] show ?thesis by metis
qed

subsection \<open>Request validation\<close>














subsection \<open>The output unit and the runtime configuration\<close>

text \<open>
  C4, as the claim states it, fails: the output unit is no parameter of the statistics
  but an assignment to the process-global configuration. On the request for
  percentages with the configuration at \<open>ha\<close>, the run assigns \<open>percent\<close>, the
  statistics read \<open>percent\<close>, and the run assigns \<open>ha\<close> back; when the statistics
  raise, the configuration the run leaves behind is \<open>percent\<close>, not the \<open>ha\<close> it
  found.
\<close>

theorem run_assigns_global_unit:
  "calls (analyze_plots sample_env settings sample_request \<lparr>percent_or_ha = ''ha''\<rparr>) =
     [Call_initialize_gee, Call_FeatureCollection, Call_size_getInfo,
      Set_percent_or_ha ''percent'', Call_get_stats ''percent'',
      Call_fc_to_dataframe 2, Call_ee_to_pandas, Set_percent_or_ha ''ha'']
   \<and> config_after (analyze_plots failing_env settings sample_request \<lparr>percent_or_ha = ''ha''\<rparr>)
       = \<lparr>percent_or_ha = ''percent''\<rparr>"
  by (simp add: sample_run failed_run calls_def config_after_def)

text \<open>
  C4, amended. The requested output unit reaches the statistics through the
  process-global \<open>config.percent_or_ha\<close>: whenever \<open>get_stats\<close> is called, the value
  it finds there is the unit of the request. After any run that does not fail inside
  the analysis step (the statistics and the conversion to a table), every setting of
  the configuration has the value it had before the run.
\<close>

theorem unit_passed_through_config:
  "(\<forall>u. Call_get_stats u \<in> set (calls (analyze_plots e s request config))
        \<longrightarrow> u = OutputUnit_value (output_unit request))
   \<and> ((\<forall>err. outcome (analyze_plots e s request config)
             \<noteq> Inl (HTTPException 500 (''Failed to run analysis: '' @ err)))
        \<longrightarrow> config_after (analyze_plots e s request config) = config)"
proof (intro conjI allI impI)
  fix u
  assume "Call_get_stats u \<in> set (calls (analyze_plots e s request config))"
  from analyze_plots_calls [OF this] obtain fc n where
    "Call_get_stats u \<in> set (fst (snd (run_whisp_analysis e request fc n config)))"
    by auto
  from run_whisp_analysis_calls [OF this]
  show "u = OutputUnit_value (output_unit request)" by auto
next
  assume "\<forall>err. outcome (analyze_plots e s request config)
             \<noteq> Inl (HTTPException 500 (''Failed to run analysis: '' @ err))"
  then show "config_after (analyze_plots e s request config) = config"
    by (rule analyze_plots_config)
qed

theorem unit_passed_through_config_witness:
  "Call_get_stats ''percent''
     \<in> set (calls (analyze_plots sample_env settings sample_request \<lparr>percent_or_ha = ''ha''\<rparr>))
   \<and> OutputUnit_value (output_unit sample_request) = ''percent''
   \<and> outcome (analyze_plots sample_env settings sample_request \<lparr>percent_or_ha = ''ha''\<rparr>)
       = Inr (success_response sample_request 2
           [(''Plot_ID'', [Text ''1'', Text ''2'']),
            (''Country'', [Text ''Ghana'', Text ''Ghana'']),
            (''Cocoa'', [Number (3 / 2), Number (1 / 4)]),
            (''Unit'', [Text ''percent'', Text ''percent''])])
   \<and> config_after (analyze_plots sample_env settings sample_request \<lparr>percent_or_ha = ''ha''\<rparr>)
       = \<lparr>percent_or_ha = ''ha''\<rparr>"
proof -
  have u: "OutputUnit_value (output_unit sample_request) = ''percent''"
    by (simp add: sample_request_def)
  from unit_passed_through_config [of sample_env settings sample_request
      "\<lparr>percent_or_ha = ''ha''\<rparr>"]
  show ?thesis
    using u by (simp add: sample_run calls_def outcome_def config_after_def)
qed

subsection \<open>Numeric coercion\<close>

lemma those_numeric_all:
  "\<forall>s. Text s \<in> set vs \<and> s \<noteq> [] \<longrightarrow> parse s \<noteq> None \<Longrightarrow>
     those (map (numeric_cell parse) vs) = Some (map (parsed_cell parse) vs)"
proof (induction vs)
  case Nil
  then show ?case by simp
next
  case (Cons c vs)
  then show ?case
    by (cases c) (auto simp: parsed_cell_def split: option.splits)
qed

lemma those_numeric_none:
  "Text s \<in> set vs \<Longrightarrow> s \<noteq> [] \<Longrightarrow> parse s = None \<Longrightarrow>
     those (map (numeric_cell parse) vs) = None"
proof (induction vs)
  case Nil
  then show ?case by simp
next
  case (Cons c vs)
  then show ?case
    by (cases c) (auto split: option.splits)
qed

lemma pd_to_numeric_all:
  "\<forall>s. Text s \<in> set vs \<and> s \<noteq> [] \<longrightarrow> parse s \<noteq> None \<Longrightarrow>
     pd_to_numeric True parse vs = Inr (map (parsed_cell parse) vs)"
  by (simp add: pd_to_numeric_def those_numeric_all)

lemma pd_to_numeric_none:
  "Text s \<in> set vs \<Longrightarrow> s \<noteq> [] \<Longrightarrow> parse s = None \<Longrightarrow>
     pd_to_numeric True parse vs = Inr vs"
  by (simp add: pd_to_numeric_def those_numeric_none)

lemma pd_to_numeric_raises:
  "pd_to_numeric False parse vs = Inl ''invalid error value specified''"
  by (simp add: pd_to_numeric_def)

text \<open>
  C5, as the claim states it, fails: the coercion is decided per column, not per cell.
  In a column that is not a metadata column and holds the numeric-looking string
  \<open>1.5\<close> beside the string \<open>abc\<close>, the string \<open>1.5\<close> is not coerced to a float:
  the column comes back as it was. The empty string is not numeric-looking and is not
  left as a string: beside the string \<open>1\<close> it becomes the missing value. And where
  pandas rejects \<open>errors='ignore'\<close>, the exception is swallowed and no column is
  coerced, the numeric-looking string \<open>1.5\<close> alone in its column included.
\<close>

theorem numeric_string_left_uncoerced:
  "sample_to_float ''1.5'' = Some (Finite (3 / 2))
   \<and> ''Cocoa'' \<notin> set metadata_columns
   \<and> coerce_numeric_columns True sample_to_float [(''Cocoa'', [Text ''1.5'', Text ''abc''])]
       = [(''Cocoa'', [Text ''1.5'', Text ''abc''])]
   \<and> sample_to_float [] = None
   \<and> coerce_numeric_columns True sample_to_float [(''Cocoa'', [Text [], Text ''1''])]
       = [(''Cocoa'', [Null, Number 1])]
   \<and> coerce_numeric_columns False sample_to_float [(''Cocoa'', [Text ''1.5''])]
       = [(''Cocoa'', [Text ''1.5''])]"
  by (simp add: coerce_numeric_columns_def metadata_columns_def pd_to_numeric_def
      sample_to_float_examples)

text \<open>
  C5, amended. The coercion keeps the columns and their names. A metadata column is
  never coerced. Where pandas rejects \<open>errors='ignore'\<close>, no column is changed. Where it
  accepts it, a column that is not a metadata column and whose strings are all empty or
  numeric-looking has each numeric-looking string replaced by its float and each empty
  string by the missing value, the other cells unchanged; a column that is not a
  metadata column and holds one string that is neither empty nor numeric-looking is
  left as it is, its numeric-looking and its empty strings included.
\<close>

theorem numeric_coercion_by_column:
  assumes "i < length df" and "df ! i = (col, vs)"
  shows "length (coerce_numeric_columns accepted parse df) = length df
       \<and> fst (coerce_numeric_columns accepted parse df ! i) = col
       \<and> (col \<in> set metadata_columns \<longrightarrow>
            snd (coerce_numeric_columns accepted parse df ! i) = vs)
       \<and> (\<not> accepted \<longrightarrow> snd (coerce_numeric_columns accepted parse df ! i) = vs)
       \<and> (col \<notin> set metadata_columns \<and> accepted
            \<and> (\<forall>s. Text s \<in> set vs \<and> s \<noteq> [] \<longrightarrow> parse s \<noteq> None) \<longrightarrow>
            snd (coerce_numeric_columns accepted parse df ! i) = map (parsed_cell parse) vs)
       \<and> (col \<notin> set metadata_columns
            \<and> (\<exists>s. Text s \<in> set vs \<and> s \<noteq> [] \<and> parse s = None) \<longrightarrow>
            snd (coerce_numeric_columns accepted parse df ! i) = vs)"
proof (cases accepted)
  case True
  have "fst (case r of Inl x \<Rightarrow> (col, vs) | Inr x \<Rightarrow> (col, x)) = col"
    for r :: "string + cell list"
    by (cases r) simp_all
  with True assms show ?thesis
    by (auto simp: coerce_numeric_columns_def pd_to_numeric_all pd_to_numeric_none)
next
  case False
  with assms show ?thesis
    by (auto simp: coerce_numeric_columns_def pd_to_numeric_raises)
qed

theorem numeric_coercion_by_column_witness:
  "(0::nat) < length [(''Cocoa'', [Text ''1.5'', Text [], Number 2]), (''Country'', [Text ''7'', Null, Null])]
   \<and> ''Cocoa'' \<notin> set metadata_columns
   \<and> snd (coerce_numeric_columns True sample_to_float
        [(''Cocoa'', [Text ''1.5'', Text [], Number 2]), (''Country'', [Text ''7'', Null, Null])] ! 0)
       = [Number (3 / 2), Null, Number 2]
   \<and> ''Country'' \<in> set metadata_columns
   \<and> snd (coerce_numeric_columns True sample_to_float
        [(''Cocoa'', [Text ''1.5'', Text [], Number 2]), (''Country'', [Text ''7'', Null, Null])] ! 1)
       = [Text ''7'', Null, Null]
   \<and> snd (coerce_numeric_columns False sample_to_float
        [(''Cocoa'', [Text ''1.5'', Text [], Number 2]), (''Country'', [Text ''7'', Null, Null])] ! 0)
       = [Text ''1.5'', Text [], Number 2]"
proof -
  let ?df = "[(''Cocoa'', [Text ''1.5'', Text [], Number 2]), (''Country'', [Text ''7'', Null, Null])]"
  have a: "\<forall>s. Text s \<in> set [Text ''1.5'', Text [], Number 2] \<and> s \<noteq> []
             \<longrightarrow> sample_to_float s \<noteq> None"
    using sample_to_float_examples by auto
  from numeric_coercion_by_column [of 0 ?df "''Cocoa''" "[Text ''1.5'', Text [], Number 2]"
      True sample_to_float]
    numeric_coercion_by_column [of 1 ?df "''Country''" "[Text ''7'', Null, Null]"
      True sample_to_float]
    numeric_coercion_by_column [of 0 ?df "''Cocoa''" "[Text ''1.5'', Text [], Number 2]"
      False sample_to_float]
  show ?thesis
    using a sample_to_float_examples by (simp add: metadata_columns_def parsed_cell_def)
qed

subsection \<open>The size checks\<close>

text \<open>
  C9. With the limit \<open>WHISP_THRESHOLD_TO_DRIVE\<close> at 500: a request whose feature
  collection is loaded and counts more than 500 features is answered with status
  \<open>too_large\<close>, no results and \<open>risk_calculated\<close> false, after the initialisation,
  the loading and the count only, so neither the statistics nor the risk
  classification run; in every run, the table conversion is called with at most 500
  features, and its branch for large counts (\<open>collection_properties_to_df\<close>) is never
  taken.
\<close>

theorem too_large_not_analysed:
  assumes "WHISP_THRESHOLD_TO_DRIVE s = 500"
  shows "(initialize_gee e s \<and> parse_input e request = Inr fc \<and> size_getInfo e fc = Inr n
            \<and> n > 500 \<longrightarrow>
            analyze_plots e s request config =
              (Inr (too_large_response s request n),
               [Call_initialize_gee, Call_FeatureCollection, Call_size_getInfo], config)
            \<and> status (too_large_response s request n) = ''too_large''
            \<and> results (too_large_response s request n) = []
            \<and> \<not> risk_calculated (too_large_response s request n))
       \<and> (\<forall>m. Call_fc_to_dataframe m \<in> set (calls (analyze_plots e s request config))
              \<longrightarrow> m \<le> 500)
       \<and> Call_collection_properties_to_df \<notin> set (calls (analyze_plots e s request config))"
proof (intro conjI impI allI)
  assume h: "initialize_gee e s \<and> parse_input e request = Inr fc \<and> size_getInfo e fc = Inr n
            \<and> n > 500"
  with assms show "analyze_plots e s request config =
              (Inr (too_large_response s request n),
               [Call_initialize_gee, Call_FeatureCollection, Call_size_getInfo], config)"
    by (simp add: analyze_plots_def)
next
  fix m
  assume "Call_fc_to_dataframe m \<in> set (calls (analyze_plots e s request config))"
  from analyze_plots_calls [OF this] obtain fc' k where
    k: "k \<le> WHISP_THRESHOLD_TO_DRIVE s"
    and "Call_fc_to_dataframe m \<in> set (fst (snd (run_whisp_analysis e request fc' k config)))"
    by auto
  from run_whisp_analysis_calls [OF this(2)] have "m = k" by auto
  with k assms show "m \<le> 500" by simp
next
  show "Call_collection_properties_to_df \<notin> set (calls (analyze_plots e s request config))"
  proof
    assume "Call_collection_properties_to_df \<in> set (calls (analyze_plots e s request config))"
    from analyze_plots_calls [OF this] obtain fc' k where
      k: "k \<le> WHISP_THRESHOLD_TO_DRIVE s"
      and "Call_collection_properties_to_df
             \<in> set (fst (snd (run_whisp_analysis e request fc' k config)))"
      by auto
    from run_whisp_analysis_calls [OF this(2)] have "\<not> k \<le> 500" by auto
    with k assms show False by simp
  qed
qed (simp_all add: too_large_response_def)

theorem too_large_not_analysed_witness:
  "WHISP_THRESHOLD_TO_DRIVE settings = 500
   \<and> initialize_gee sample_env settings
   \<and> parse_input sample_env large_request = Inr (replicate 501 plot_1)
   \<and> size_getInfo sample_env (replicate 501 plot_1) = Inr 501
   \<and> (501::int) > 500
   \<and> analyze_plots sample_env settings large_request \<lparr>percent_or_ha = ''ha''\<rparr> =
       (Inr (too_large_response settings large_request 501),
        [Call_initialize_gee, Call_FeatureCollection, Call_size_getInfo],
        \<lparr>percent_or_ha = ''ha''\<rparr>)
   \<and> results (too_large_response settings large_request 501) = []
   \<and> Call_fc_to_dataframe 2
        \<in> set (calls (analyze_plots sample_env settings sample_request \<lparr>percent_or_ha = ''ha''\<rparr>))
   \<and> Call_collection_properties_to_df
        \<notin> set (calls (analyze_plots sample_env settings sample_request \<lparr>percent_or_ha = ''ha''\<rparr>))"
proof -
  have h0: "WHISP_THRESHOLD_TO_DRIVE settings = 500"
    by (simp add: settings_def)
  have h3: "size_getInfo sample_env (replicate 501 plot_1) = Inr 501"
    by (simp add: sample_env_def)
  have h4: "Call_fc_to_dataframe 2
        \<in> set (calls (analyze_plots sample_env settings sample_request \<lparr>percent_or_ha = ''ha''\<rparr>))"
    by (simp add: sample_run calls_def)
  from too_large_not_analysed [OF h0, of sample_env large_request "replicate 501 plot_1" 501
      "\<lparr>percent_or_ha = ''ha''\<rparr>"]
    too_large_not_analysed [OF h0, of sample_env sample_request "[]" 0
      "\<lparr>percent_or_ha = ''ha''\<rparr>"]
  show ?thesis
    using h0 h3 h4 sample_initialize_gee sample_parse_large by simp
qed

text \<open>
  C10. A request whose input is loaded as a feature collection of zero features is
  rejected with HTTP 400 and the message "Input contains no features", after the
  initialisation, the loading and the count only: neither the statistics nor the risk
  classification run.
\<close>

theorem zero_features_rejected:
  assumes "initialize_gee e s" and "parse_input e request = Inr fc"
    and "size_getInfo e fc = Inr 0"
  shows "analyze_plots e s request config =
           (Inl (HTTPException 400 ''Input contains no features''),
            [Call_initialize_gee, Call_FeatureCollection, Call_size_getInfo], config)
         \<and> (\<forall>u. Call_get_stats u \<notin> set (calls (analyze_plots e s request config)))
         \<and> Call_whisp_risk \<notin> set (calls (analyze_plots e s request config))"
  using assms by (simp add: analyze_plots_def calls_def)

theorem zero_features_rejected_witness:
  "initialize_gee sample_env settings
   \<and> parse_input sample_env empty_request = Inr []
   \<and> size_getInfo sample_env [] = Inr 0
   \<and> analyze_plots sample_env settings empty_request \<lparr>percent_or_ha = ''ha''\<rparr> =
       (Inl (HTTPException 400 ''Input contains no features''),
        [Call_initialize_gee, Call_FeatureCollection, Call_size_getInfo],
        \<lparr>percent_or_ha = ''ha''\<rparr>)"
proof -
  have h3: "size_getInfo sample_env [] = Inr 0"
    by (simp add: sample_env_def)
  from zero_features_rejected [OF sample_initialize_gee sample_parse_empty h3]
  show ?thesis
    using sample_initialize_gee sample_parse_empty h3 by simp
qed

section \<open>Properties of the engine\<close>

subsection \<open>Indicator states\<close>

lemma build_cell_Missing: "build_cell rnd r p d Missing = Missing"
  by (cases "dataset_unit d"; cases r) (simp_all add: build_cell_def)

lemma classify_row_states:
  assumes "\<forall>k. map_of (row_cells row) (source k) = Some Missing
              \<or> (\<exists>x. map_of (row_cells row) (source k) = Some (Numeric x))"
  shows "\<exists>st. classify_row source thresholds rule row = Inr (st, rule st)
           \<and> (\<forall>k. map_of (row_cells row) (source k) = Some Missing \<longrightarrow> state_of st k = unknown)
           \<and> (\<forall>k x. map_of (row_cells row) (source k) = Some (Numeric x) \<longrightarrow>
                 (x \<ge> thresholds k \<longrightarrow> state_of st k = exceeded)
               \<and> (x < thresholds k \<longrightarrow> state_of st k = not_exceeded))"
proof -
  have ex: "\<exists>s. indicator (row_cells row) (source k) (thresholds k) = Inr s
        \<and> (map_of (row_cells row) (source k) = Some Missing \<longrightarrow> s = unknown)
        \<and> (\<forall>x. map_of (row_cells row) (source k) = Some (Numeric x) \<longrightarrow>
             s = (if x \<ge> thresholds k then exceeded else not_exceeded))" for k
    using assms [rule_format, of k] by (auto simp: indicator_def)
  from ex [of Indicator_1] obtain s1 where s1:
    "indicator (row_cells row) (source Indicator_1) (thresholds Indicator_1) = Inr s1"
    "map_of (row_cells row) (source Indicator_1) = Some Missing \<longrightarrow> s1 = unknown"
    "\<forall>x. map_of (row_cells row) (source Indicator_1) = Some (Numeric x) \<longrightarrow>
             s1 = (if x \<ge> thresholds Indicator_1 then exceeded else not_exceeded)" by blast
  from ex [of Indicator_2] obtain s2 where s2:
    "indicator (row_cells row) (source Indicator_2) (thresholds Indicator_2) = Inr s2"
    "map_of (row_cells row) (source Indicator_2) = Some Missing \<longrightarrow> s2 = unknown"
    "\<forall>x. map_of (row_cells row) (source Indicator_2) = Some (Numeric x) \<longrightarrow>
             s2 = (if x \<ge> thresholds Indicator_2 then exceeded else not_exceeded)" by blast
  from ex [of Indicator_3] obtain s3 where s3:
    "indicator (row_cells row) (source Indicator_3) (thresholds Indicator_3) = Inr s3"
    "map_of (row_cells row) (source Indicator_3) = Some Missing \<longrightarrow> s3 = unknown"
    "\<forall>x. map_of (row_cells row) (source Indicator_3) = Some (Numeric x) \<longrightarrow>
             s3 = (if x \<ge> thresholds Indicator_3 then exceeded else not_exceeded)" by blast
  from ex [of Indicator_4] obtain s4 where s4:
    "indicator (row_cells row) (source Indicator_4) (thresholds Indicator_4) = Inr s4"
    "map_of (row_cells row) (source Indicator_4) = Some Missing \<longrightarrow> s4 = unknown"
    "\<forall>x. map_of (row_cells row) (source Indicator_4) = Some (Numeric x) \<longrightarrow>
             s4 = (if x \<ge> thresholds Indicator_4 then exceeded else not_exceeded)" by blast
  let ?st = "\<lparr>state_1 = s1, state_2 = s2, state_3 = s3, state_4 = s4\<rparr>"
  have c: "classify_row source thresholds rule row = Inr (?st, rule ?st)"
    using s1(1) s2(1) s3(1) s4(1) by (simp add: classify_row_def Let_def)
  have m: "map_of (row_cells row) (source k) = Some Missing \<longrightarrow> state_of ?st k = unknown" for k
    using s1(2) s2(2) s3(2) s4(2) by (cases k) simp_all
  have n: "map_of (row_cells row) (source k) = Some (Numeric x) \<longrightarrow>
             (x \<ge> thresholds k \<longrightarrow> state_of ?st k = exceeded)
           \<and> (x < thresholds k \<longrightarrow> state_of ?st k = not_exceeded)" for k x
    using s1(3) s2(3) s3(3) s4(3) by (cases k) auto
  from c m n show ?thesis by blast
qed

text \<open>
  C1. For every plot and each of the four indicators: a null raw value gives a null
  table cell; a contributing statistic that is null gives the state \<open>unknown\<close>, and
  one that is a number gives \<open>exceeded\<close> exactly when it is at least the threshold (a
  statistic equal to the threshold included), \<open>not_exceeded\<close> otherwise. When the
  four contributing statistics of a row are present, each null or a number, the
  classification of the row succeeds with these four states.
\<close>

theorem indicator_states_by_threshold:
  "build_cell rnd r p d Missing = Missing
   \<and> (map_of cells col = Some Missing \<longrightarrow> indicator cells col t = Inr unknown)
   \<and> (map_of cells col = Some (Numeric x) \<longrightarrow>
        indicator cells col t = Inr (if x \<ge> t then exceeded else not_exceeded))
   \<and> ((\<forall>k. map_of (row_cells row) (source k) = Some Missing
              \<or> (\<exists>x. map_of (row_cells row) (source k) = Some (Numeric x))) \<longrightarrow>
        (\<exists>st. classify_row source thresholds rule row = Inr (st, rule st)
           \<and> (\<forall>k. map_of (row_cells row) (source k) = Some Missing \<longrightarrow> state_of st k = unknown)
           \<and> (\<forall>k x. map_of (row_cells row) (source k) = Some (Numeric x) \<longrightarrow>
                 (x \<ge> thresholds k \<longrightarrow> state_of st k = exceeded)
               \<and> (x < thresholds k \<longrightarrow> state_of st k = not_exceeded))))"
proof (intro conjI impI)
  show "build_cell rnd r p d Missing = Missing"
    by (rule build_cell_Missing)
next
  assume "map_of cells col = Some Missing"
  then show "indicator cells col t = Inr unknown"
    by (simp add: indicator_def)
next
  assume "map_of cells col = Some (Numeric x)"
  then show "indicator cells col t = Inr (if x \<ge> t then exceeded else not_exceeded)"
    by (simp add: indicator_def)
next
  assume "\<forall>k. map_of (row_cells row) (source k) = Some Missing
              \<or> (\<exists>x. map_of (row_cells row) (source k) = Some (Numeric x))"
  then show "\<exists>st. classify_row source thresholds rule row = Inr (st, rule st)
           \<and> (\<forall>k. map_of (row_cells row) (source k) = Some Missing \<longrightarrow> state_of st k = unknown)
           \<and> (\<forall>k x. map_of (row_cells row) (source k) = Some (Numeric x) \<longrightarrow>
                 (x \<ge> thresholds k \<longrightarrow> state_of st k = exceeded)
               \<and> (x < thresholds k \<longrightarrow> state_of st k = not_exceeded))"
    by (rule classify_row_states)
qed

theorem indicator_states_by_threshold_witness:
  "map_of (row_cells scenario_row) (scenario_source Indicator_1) = Some (Numeric 10)
   \<and> indicator (row_cells scenario_row) (scenario_source Indicator_1) 10 = Inr exceeded
   \<and> map_of (row_cells scenario_row) (scenario_source Indicator_3) = Some Missing
   \<and> indicator (row_cells scenario_row) (scenario_source Indicator_3) 10 = Inr unknown
   \<and> classify_row scenario_source (\<lambda>k. 10) placeholder_rule scenario_row =
       Inr (\<lparr>state_1 = exceeded, state_2 = not_exceeded, state_3 = unknown,
             state_4 = not_exceeded\<rparr>, more_info_needed)"
proof -
  have h: "\<forall>k. map_of (row_cells scenario_row) (scenario_source k) = Some Missing
              \<or> (\<exists>x. map_of (row_cells scenario_row) (scenario_source k) = Some (Numeric x))"
  proof
    fix k
    have "map_of (row_cells scenario_row) (scenario_source k)
            \<in> {Some (Numeric 10), Some (Numeric (99 / 10)), Some Missing, Some (Numeric 5)}"
      by (cases k) (simp_all add: scenario_row_def scenario_source_def)
    then show "map_of (row_cells scenario_row) (scenario_source k) = Some Missing
              \<or> (\<exists>x. map_of (row_cells scenario_row) (scenario_source k) = Some (Numeric x))"
      by blast
  qed
  have m1: "map_of (row_cells scenario_row) (scenario_source Indicator_1) = Some (Numeric 10)"
    by (simp add: scenario_row_def scenario_source_def)
  have m3: "map_of (row_cells scenario_row) (scenario_source Indicator_3) = Some Missing"
    by (simp add: scenario_row_def scenario_source_def)
  from indicator_states_by_threshold [of _ _ _ _ "row_cells scenario_row"
      "scenario_source Indicator_1" 10 10 scenario_row scenario_source "\<lambda>k. 10"
      placeholder_rule]
    indicator_states_by_threshold [of _ _ _ _ "row_cells scenario_row"
      "scenario_source Indicator_3" 10 10 scenario_row scenario_source "\<lambda>k. 10"
      placeholder_rule]
  show ?thesis
    using h m1 m3
    by (simp add: classify_row_def indicator_def scenario_row_def scenario_source_def
        placeholder_rule_def Let_def)
qed

subsection \<open>Plots of no area\<close>

lemma convert_nonpositive_area:
  "a \<le> 0 \<Longrightarrow> needs_conversion u r \<Longrightarrow> convert rnd v u a r = Inl ConversionError"
  by (cases u; cases r) simp_all

lemma convert_not_needed:
  "\<not> needs_conversion u r \<Longrightarrow> convert rnd v u a r = Inr v"
  by (cases u; cases r) simp_all

text \<open>
  C3. For a plot whose area is not positive, every conversion between area and percent
  is a \<open>ConversionError\<close>, whatever the value; the error stays in its cell: the table
  has one row per plot, the row of the plot is there with one cell per registered
  dataset, the cell of a dataset that needed the conversion is null, the cell of a
  dataset that needed none holds the raw value, and every row of the table is the row
  built from its own plot alone.
\<close>

theorem zero_area_conversion_contained:
  assumes "i < length plots" and "area (plots ! i) \<le> 0" and "j < length registry"
  shows "length (build rnd registry raw plots r) = length plots
       \<and> row_plot (build rnd registry raw plots r ! i) = plots ! i
       \<and> length (row_cells (build rnd registry raw plots r ! i)) = length registry
       \<and> fst (row_cells (build rnd registry raw plots r ! i) ! j) = dataset_id (registry ! j)
       \<and> (needs_conversion (dataset_unit (registry ! j)) r \<longrightarrow>
            convert rnd v (dataset_unit (registry ! j)) (area (plots ! i)) r = Inl ConversionError
            \<and> snd (row_cells (build rnd registry raw plots r ! i) ! j) = Missing)
       \<and> (\<not> needs_conversion (dataset_unit (registry ! j)) r \<longrightarrow>
            snd (row_cells (build rnd registry raw plots r ! i) ! j)
              = raw (plot_id (plots ! i)) (dataset_id (registry ! j)))
       \<and> (\<forall>k < length plots.
            build rnd registry raw plots r ! k = build_row rnd registry raw r (plots ! k))"
  using assms
  by (simp add: build_def build_row_def build_cell_def convert_nonpositive_area
      convert_not_needed)

theorem zero_area_conversion_contained_witness:
  "(1::nat) < length scenario_plots \<and> area (scenario_plots ! 1) \<le> 0
   \<and> (0::nat) < length scenario_registry
   \<and> needs_conversion (dataset_unit (scenario_registry ! 0)) Requested_percent_of_plot
   \<and> convert (\<lambda>y. y) (Numeric 5) Area 0 Requested_percent_of_plot = Inl ConversionError
   \<and> build (\<lambda>y. y) scenario_registry scenario_raw scenario_plots Requested_percent_of_plot =
       [\<lparr>row_plot = \<lparr>plot_id = ''1'', area = 10\<rparr>,
         row_cells = [(''tree_cover'', Numeric 50), (''commodity'', Numeric 20),
                      (''water'', Truth True)]\<rparr>,
        \<lparr>row_plot = \<lparr>plot_id = ''2'', area = 0\<rparr>,
         row_cells = [(''tree_cover'', Missing), (''commodity'', Numeric 20),
                      (''water'', Truth True)]\<rparr>]"
proof -
  have h1: "(1::nat) < length scenario_plots" by (simp add: scenario_plots_def)
  have h2: "area (scenario_plots ! 1) \<le> 0" by (simp add: scenario_plots_def)
  have h3: "(0::nat) < length scenario_registry" by (simp add: scenario_registry_def)
  from zero_area_conversion_contained [OF h1 h2 h3, of "\<lambda>y. y" scenario_raw
      Requested_percent_of_plot "Numeric 5"]
  show ?thesis
    using h1 h2 h3
    by (simp add: scenario_plots_def scenario_registry_def scenario_raw_def build_def
        build_row_def build_cell_def area_to_percent_def)
qed

subsection \<open>The round trip of the units\<close>

lemma round_half_even_error: "\<bar>of_int (round_half_even q) - q\<bar> \<le> 1 / 2"
proof -
  have "of_int \<lfloor>q\<rfloor> \<le> q" "q < of_int \<lfloor>q\<rfloor> + 1" by linarith+
  then show ?thesis
    by (auto simp: round_half_even_def Let_def)
qed

lemma min_normal_pos: "0 < min_normal"
  by (simp add: min_normal_def)

lemma exponent_normal:
  assumes "min_normal \<le> \<bar>y\<bar>"
  shows "- 1022 \<le> \<lfloor>log 2 \<bar>y\<bar>\<rfloor>"
proof -
  have pos: "0 < \<bar>y\<bar>" using assms min_normal_pos by linarith
  from assms have "2 powr (- 1022) \<le> \<bar>y\<bar>" by (simp add: min_normal_def)
  with pos have "- 1022 \<le> log 2 \<bar>y\<bar>"
    by (simp add: le_log_iff)
  then show ?thesis by (simp add: le_floor_iff)
qed

text \<open>
  Rounding to 53 bits moves a number of the normal range by at most \<open>2\<^sup>-\<^sup>5\<^sup>3\<close> of
  its magnitude.
\<close>

lemma round_to_53_bits_error:
  assumes "min_normal \<le> \<bar>y\<bar>"
  shows "\<bar>round_to_53_bits y - y\<bar> \<le> \<bar>y\<bar> / 2 ^ 53"
proof -
  have pos: "0 < \<bar>y\<bar>" using assms min_normal_pos by linarith
  then have y0: "y \<noteq> 0" by auto
  define e where "e = \<lfloor>log 2 \<bar>y\<bar>\<rfloor>"
  define ulp :: real where "ulp = 2 powr (of_int (e - 52))"
  define n where "n = round_half_even (y / ulp)"
  have e: "max e (- 1022) = e"
    using exponent_normal [OF assms] by (simp add: e_def)
  have ulp_pos: "0 < ulp" by (simp add: ulp_def)
  have r: "round_to_53_bits y = of_int n * ulp"
    using y0 e by (simp add: round_to_53_bits_def Let_def e_def [symmetric] ulp_def n_def)
  have "of_int n * ulp - y = (of_int n - y / ulp) * ulp"
    using ulp_pos by (simp add: field_simps)
  then have "\<bar>of_int n * ulp - y\<bar> = \<bar>of_int n - y / ulp\<bar> * ulp"
    using ulp_pos by (simp add: abs_mult)
  also have "\<dots> \<le> (1 / 2) * ulp"
    using ulp_pos round_half_even_error [of "y / ulp"]
    by (intro mult_right_mono) (simp_all add: n_def)
  finally have b: "\<bar>round_to_53_bits y - y\<bar> \<le> ulp / 2" by (simp add: r)
  have "of_int e \<le> log 2 \<bar>y\<bar>" by (simp add: e_def)
  with pos have le: "2 powr (of_int e) \<le> \<bar>y\<bar>"
    by (simp add: le_log_iff)
  have "ulp = 2 powr (of_int e) / 2 powr 52"
    by (simp add: ulp_def powr_diff)
  moreover have "(2::real) powr 52 = 2 ^ 52"
    by (rule powr_numeral) simp
  ultimately have "ulp / 2 = 2 powr (of_int e) / 2 ^ 53" by simp
  also have "\<dots> \<le> \<bar>y\<bar> / 2 ^ 53"
    using le by (simp add: divide_right_mono)
  finally show ?thesis using b by linarith
qed

lemma round_to_53_bits_zero: "round_to_53_bits 0 = 0"
  by (simp add: round_to_53_bits_def)

lemma overflow_bound_pos: "0 < overflow_bound"
  by (simp add: overflow_bound_def)

lemma subnormal_ulp: "(2::real) powr (- 1074) = min_normal / 2 ^ 52"
proof -
  have "(2::real) powr (- 1022) = 2 powr (- 1074 + 52)" by simp
  also have "\<dots> = 2 powr (- 1074) * 2 powr 52" by (rule powr_add)
  also have "(2::real) powr 52 = 2 ^ 52" by (rule powr_numeral) simp
  finally have "min_normal = 2 powr (- 1074) * 2 ^ 52"
    by (simp only: min_normal_def)
  then show ?thesis by simp
qed

lemma min_normal_small: "min_normal \<le> 1 / 8"
proof -
  have "(2::real) powr (- 1022) \<le> 2 powr (- 3)"
    by (intro powr_mono) simp_all
  also have "(2::real) powr (- 3) = 1 / 8"
    by (simp add: powr_minus_divide)
  finally show ?thesis by (simp only: min_normal_def)
qed

lemma overflow_bound_large: "1024 \<le> overflow_bound"
proof -
  have "(2::real) powr 10 \<le> 2 powr 1024"
    by (intro powr_mono) simp_all
  moreover have "(2::real) powr 10 = 1024" by simp
  ultimately show ?thesis by (simp only: overflow_bound_def)
qed

lemma round_to_53_bits_underflow:
  assumes "0 < y" and "y < min_normal / 2 ^ 53"
  shows "round_to_53_bits y = 0"
proof -
  have "min_normal / 2 ^ 53 \<le> min_normal"
    using min_normal_pos by (simp add: field_simps)
  with assms have "y < 2 powr (- 1022)" by (simp add: min_normal_def)
  with assms(1) have "log 2 y < - 1022"
    by (simp add: log_less_iff)
  then have "\<lfloor>log 2 \<bar>y\<bar>\<rfloor> < - 1022"
    using assms(1) by (simp add: floor_less_iff)
  then have e: "max \<lfloor>log 2 \<bar>y\<bar>\<rfloor> (- 1022) = - 1022" by simp
  have ulp: "(2::real) powr (- 1074) = min_normal / 2 ^ 52"
    by (rule subnormal_ulp)
  define q where "q = y / (min_normal / 2 ^ 52)"
  have "0 < q" "q < 1 / 2"
    using assms min_normal_pos by (simp_all add: q_def field_simps)
  then have "\<lfloor>q\<rfloor> = 0" by (simp add: floor_eq_iff)
  with \<open>q < 1 / 2\<close> have q0: "round_half_even q = 0"
    by (simp add: round_half_even_def Let_def)
  have "round_to_53_bits y
          = of_int (round_half_even (y / 2 powr (- 1074))) * 2 powr (- 1074)"
    using assms(1) e by (simp add: round_to_53_bits_def Let_def)
  also have "\<dots> = of_int (round_half_even q) * (min_normal / 2 ^ 52)"
    by (simp only: ulp q_def)
  finally show ?thesis by (simp add: q0)
qed

lemma binary64_overflow:
  assumes "2 * overflow_bound \<le> y"
  shows "binary64 y = Infinity"
proof -
  have y: "0 < y" "overflow_bound \<le> y / 2"
    using assms overflow_bound_pos by linarith+
  have "min_normal \<le> overflow_bound"
    using min_normal_small overflow_bound_large by linarith
  with y have "min_normal \<le> \<bar>y\<bar>" by linarith
  from round_to_53_bits_error [OF this] y(1)
  have "y - y / 2 ^ 53 \<le> round_to_53_bits y" by linarith
  moreover have "y / 2 ^ 53 \<le> y / 2"
    using y(1) by (simp add: field_simps)
  ultimately have "overflow_bound \<le> round_to_53_bits y"
    using y(2) by linarith
  then show ?thesis by (simp add: binary64_def Let_def)
qed

lemma binary64_finite:
  assumes "min_normal \<le> \<bar>y\<bar>" and "\<bar>y\<bar> \<le> max_binary64"
  shows "binary64 y = Finite (round_to_53_bits y)"
proof -
  define u :: real where "u = 1 / 2 ^ 53"
  have u: "0 < u" by (simp add: u_def)
  from round_to_53_bits_error [OF assms(1)]
  have "\<bar>round_to_53_bits y - y\<bar> \<le> \<bar>y\<bar> * u" by (simp add: u_def)
  then have "\<bar>round_to_53_bits y\<bar> \<le> \<bar>y\<bar> * (1 + u)"
    by (simp add: algebra_simps)
  also have "\<dots> \<le> (overflow_bound - overflow_bound * u) * (1 + u)"
    using assms(2) u by (intro mult_right_mono) (simp_all add: max_binary64_def u_def)
  also have "\<dots> = overflow_bound - overflow_bound * (u * u)"
    by (simp add: algebra_simps)
  also have "\<dots> < overflow_bound"
    using overflow_bound_pos u by simp
  finally have "\<bar>round_to_53_bits y\<bar> < overflow_bound" .
  then have "\<not> overflow_bound \<le> round_to_53_bits y"
    "\<not> round_to_53_bits y \<le> - overflow_bound" by linarith+
  then show ?thesis by (simp add: binary64_def Let_def)
qed

lemma round_third: "round_to_53_bits (1 / 3) = 6004799503160661 / 18014398509481984"
proof -
  have "(2::real) powr (- 2) \<le> 1 / 3" "1 / 3 < (2::real) powr (- 1)"
    by (simp_all add: powr_minus_divide)
  then have "- 2 \<le> log 2 (1 / 3)" "log 2 (1 / 3) < - 1"
    by (simp_all add: le_log_iff log_less_iff)
  then have e: "\<lfloor>log 2 (1 / 3 :: real)\<rfloor> = - 2"
    by (simp add: floor_eq_iff)
  have ulp: "(2::real) powr (- 54) = 1 / 18014398509481984"
    by (simp add: powr_minus_divide)
  have q: "round_half_even (18014398509481984 / 3) = 6004799503160661"
    by (simp add: round_half_even_def Let_def)
  have "round_to_53_bits (1 / 3)
          = of_int (round_half_even ((1 / 3) / 2 powr (- 54))) * 2 powr (- 54)"
    by (simp add: round_to_53_bits_def Let_def e)
  also have "\<dots> = of_int (round_half_even ((1 / 3) / (1 / 18014398509481984)))
                    * (1 / 18014398509481984)"
    by (simp only: ulp)
  also have "(1 / 3) / (1 / 18014398509481984) = (18014398509481984 / 3 :: real)" by simp
  finally show ?thesis by (simp add: q)
qed

lemma scale_error:
  fixes y t c e :: real
  assumes "\<bar>y - t\<bar> \<le> e * \<bar>t\<bar>"
  shows "\<bar>y * c - t * c\<bar> \<le> e * \<bar>t * c\<bar>"
proof -
  have "\<bar>y * c - t * c\<bar> = \<bar>y - t\<bar> * \<bar>c\<bar>"
    by (simp add: left_diff_distrib [symmetric] abs_mult)
  also have "\<dots> \<le> (e * \<bar>t\<bar>) * \<bar>c\<bar>"
    using assms by (intro mult_right_mono) simp_all
  finally show ?thesis by (simp add: abs_mult mult.assoc)
qed

lemma near_in_range:
  fixes y t e :: real
  assumes y: "\<bar>y - t\<bar> \<le> e * \<bar>t\<bar>" and e: "0 \<le> e" "e \<le> 1 / 2" and t: "in_normal_range t"
  shows "min_normal \<le> \<bar>y\<bar> \<and> \<bar>y\<bar> \<le> max_binary64"
proof -
  have "e * \<bar>t\<bar> \<le> (1 / 2) * \<bar>t\<bar>"
    using e by (intro mult_right_mono) simp_all
  with y have d: "\<bar>y - t\<bar> \<le> \<bar>t\<bar> / 2" by simp
  have "\<bar>t\<bar> - \<bar>y - t\<bar> \<le> \<bar>y\<bar>" "\<bar>y\<bar> \<le> \<bar>t\<bar> + \<bar>y - t\<bar>" by linarith+
  with d have "\<bar>t\<bar> / 2 \<le> \<bar>y\<bar>" "\<bar>y\<bar> \<le> 3 * \<bar>t\<bar> / 2" by linarith+
  moreover have "overflow_bound / 2 ^ 53 \<le> overflow_bound / 4"
    using overflow_bound_pos by (simp add: field_simps)
  ultimately show ?thesis
    using t unfolding in_normal_range_def max_binary64_def by linarith
qed

lemma rounding_step:
  fixes rnd :: "real \<Rightarrow> real" and y t e :: real
  assumes r: "\<forall>y. min_normal \<le> \<bar>y\<bar> \<and> \<bar>y\<bar> \<le> max_binary64 \<longrightarrow> \<bar>rnd y - y\<bar> \<le> \<bar>y\<bar> / 2 ^ 53"
    and y: "\<bar>y - t\<bar> \<le> e * \<bar>t\<bar>" and e: "0 \<le> e" "e \<le> 1 / 2" and t: "in_normal_range t"
  shows "\<bar>rnd y - t\<bar> \<le> (e + 1 / 2 ^ 53 + e * (1 / 2 ^ 53)) * \<bar>t\<bar>"
proof -
  define u :: real where "u = 1 / 2 ^ 53"
  have u: "0 \<le> u" by (simp add: u_def)
  from near_in_range [OF y e t] r have "\<bar>rnd y - y\<bar> \<le> \<bar>y\<bar> / 2 ^ 53" by blast
  then have ry: "\<bar>rnd y - y\<bar> \<le> u * \<bar>y\<bar>" by (simp add: u_def)
  have "\<bar>y\<bar> \<le> \<bar>t\<bar> + \<bar>y - t\<bar>" by simp
  with y have "\<bar>y\<bar> \<le> (1 + e) * \<bar>t\<bar>" by (simp add: algebra_simps)
  with u have "u * \<bar>y\<bar> \<le> u * ((1 + e) * \<bar>t\<bar>)" by (intro mult_left_mono)
  moreover have "\<bar>rnd y - t\<bar> \<le> \<bar>rnd y - y\<bar> + \<bar>y - t\<bar>" by simp
  ultimately have "\<bar>rnd y - t\<bar> \<le> u * ((1 + e) * \<bar>t\<bar>) + e * \<bar>t\<bar>"
    using y ry by linarith
  then have "\<bar>rnd y - t\<bar> \<le> (e + u + e * u) * \<bar>t\<bar>" by (simp add: algebra_simps)
  then show ?thesis by (simp add: u_def)
qed

text \<open>
  Four rounded operations on operands of the normal range take a value to the
  percentage and back with relative error at most \<open>(1 + 2\<^sup>-\<^sup>5\<^sup>3)\<^sup>4 - 1\<close>.
\<close>

lemma round_trip_error:
  fixes rnd :: "real \<Rightarrow> real" and x a :: real
  assumes r: "\<forall>y. min_normal \<le> \<bar>y\<bar> \<and> \<bar>y\<bar> \<le> max_binary64 \<longrightarrow> \<bar>rnd y - y\<bar> \<le> \<bar>y\<bar> / 2 ^ 53"
    and a: "0 < a"
    and t1: "in_normal_range (x / a)" and t2: "in_normal_range (x / a * 100)"
    and t3: "in_normal_range (x * 100)" and t4: "in_normal_range x"
  shows "\<bar>percent_to_area rnd (area_to_percent rnd x a) a - x\<bar> \<le> \<bar>x\<bar> / 10 ^ 9"
proof -
  define u :: real where "u = 1 / 2 ^ 53"
  define e2 where "e2 = u + u + u * u"
  define e3 where "e3 = e2 + u + e2 * u"
  define e4 where "e4 = e3 + u + e3 * u"
  have bounds: "0 \<le> u" "u \<le> 1 / 2" "0 \<le> e2" "e2 \<le> 1 / 2" "0 \<le> e3" "e3 \<le> 1 / 2"
    "e4 \<le> 1 / 10 ^ 9"
    by (simp_all add: e4_def e3_def e2_def u_def)
  define x1 where "x1 = rnd (x / a)"
  define x2 where "x2 = rnd (x1 * 100)"
  define x3 where "x3 = rnd (x2 * a)"
  define x4 where "x4 = rnd (x3 / 100)"
  have "\<bar>x / a - x / a\<bar> \<le> 0 * \<bar>x / a\<bar>" by simp
  from rounding_step [OF r this _ _ t1]
  have e1: "\<bar>x1 - x / a\<bar> \<le> u * \<bar>x / a\<bar>" by (simp add: x1_def u_def)
  from scale_error [OF e1, of 100]
  have "\<bar>x1 * 100 - x / a * 100\<bar> \<le> u * \<bar>x / a * 100\<bar>" .
  from rounding_step [OF r this bounds(1,2) t2]
  have s2: "\<bar>x2 - x / a * 100\<bar> \<le> e2 * \<bar>x / a * 100\<bar>"
    by (simp add: x2_def e2_def u_def)
  from scale_error [OF s2, of a] a
  have "\<bar>x2 * a - x * 100\<bar> \<le> e2 * \<bar>x * 100\<bar>" by simp
  from rounding_step [OF r this bounds(3,4) t3]
  have s3: "\<bar>x3 - x * 100\<bar> \<le> e3 * \<bar>x * 100\<bar>"
    by (simp add: x3_def e3_def u_def)
  from scale_error [OF s3, of "1 / 100"]
  have "\<bar>x3 / 100 - x\<bar> \<le> e3 * \<bar>x\<bar>" by simp
  from rounding_step [OF r this bounds(5,6) t4]
  have "\<bar>x4 - x\<bar> \<le> e4 * \<bar>x\<bar>"
    by (simp add: x4_def e4_def u_def)
  also have "\<dots> \<le> (1 / 10 ^ 9) * \<bar>x\<bar>"
    using bounds(7) by (intro mult_right_mono) simp_all
  finally have "\<bar>x4 - x\<bar> \<le> \<bar>x\<bar> / 10 ^ 9" by simp
  moreover have "percent_to_area rnd (area_to_percent rnd x a) a = x4"
    by (simp add: percent_to_area_def area_to_percent_def x4_def x3_def x2_def x1_def)
  ultimately show ?thesis by simp
qed

text \<open>
  C6, as the claim states it, fails: not every positive area and every numeric value
  make the round trip. The value \<open>2\<^sup>-\<^sup>1\<^sup>0\<^sup>7\<^sup>4\<close>, the smallest positive float, on a plot
  of area 4: the division underflows to zero, the percentage is 0 and so is the area
  that comes back, which is not within \<open>10\<^sup>-\<^sup>9\<close> of the value. And the value
  \<open>2\<^sup>1\<^sup>0\<^sup>2\<^sup>3\<close> on a plot of area 1/4: the division overflows to the infinity.
\<close>

theorem round_trip_lost_outside_range:
  "(0::real) < 4
   \<and> convert round_to_53_bits (Numeric (min_normal / 2 ^ 52)) Area 4 Requested_percent_of_plot
       = Inr (Numeric 0)
   \<and> convert round_to_53_bits (Numeric 0) Percent_of_plot 4 Requested_area = Inr (Numeric 0)
   \<and> \<not> \<bar>0 - min_normal / 2 ^ 52\<bar> \<le> \<bar>min_normal / 2 ^ 52\<bar> / 10 ^ 9
   \<and> binary64 (overflow_bound / 2 / (1 / 4)) = Infinity"
proof -
  have "round_to_53_bits (min_normal / 2 ^ 52 / 4) = 0"
    using min_normal_pos by (intro round_to_53_bits_underflow) (simp_all add: field_simps)
  then have "area_to_percent round_to_53_bits (min_normal / 2 ^ 52) 4 = 0"
    by (simp add: area_to_percent_def round_to_53_bits_zero)
  moreover have "percent_to_area round_to_53_bits 0 4 = 0"
    by (simp add: percent_to_area_def round_to_53_bits_zero)
  moreover have "binary64 (overflow_bound / 2 / (1 / 4)) = Infinity"
    by (intro binary64_overflow) simp
  ultimately show ?thesis
    using min_normal_pos by (simp add: field_simps)
qed

text \<open>
  C6, amended. For every positive plot area and every numeric statistic that is zero,
  or is such that the value, the value divided by the area, that quotient times 100
  and the value times 100 all have a magnitude from \<open>2\<^sup>-\<^sup>1\<^sup>0\<^sup>2\<^sup>1\<close> to \<open>2\<^sup>1\<^sup>0\<^sup>2\<^sup>3\<close>,
  converting the value from area to percent of the plot and back to area succeeds and
  recovers the value within a relative error of \<open>10\<^sup>-\<^sup>9\<close>, when each of the four
  floating-point operations rounds a result of the normal range, from \<open>min_normal\<close>
  to \<open>max_binary64\<close>, with a relative error of at most \<open>2\<^sup>-\<^sup>5\<^sup>3\<close> and leaves zero as
  it is, which rounding to binary64 does. A categorical or boolean layer is never
  converted, whatever the requested unit, the area and the value.
\<close>

theorem unit_round_trip:
  assumes "0 < a"
    and "\<forall>y. min_normal \<le> \<bar>y\<bar> \<and> \<bar>y\<bar> \<le> max_binary64 \<longrightarrow> \<bar>rnd y - y\<bar> \<le> \<bar>y\<bar> / 2 ^ 53"
    and "rnd 0 = 0"
    and "x \<noteq> 0 \<longrightarrow> in_normal_range (x / a) \<and> in_normal_range (x / a * 100)
           \<and> in_normal_range (x * 100) \<and> in_normal_range x"
  shows "(\<exists>p x'. convert rnd (Numeric x) Area a Requested_percent_of_plot = Inr (Numeric p)
            \<and> p = area_to_percent rnd x a
            \<and> convert rnd (Numeric p) Percent_of_plot a Requested_area = Inr (Numeric x')
            \<and> x' = percent_to_area rnd p a
            \<and> \<bar>x' - x\<bar> \<le> \<bar>x\<bar> / 10 ^ 9)
       \<and> convert rnd' v Categorical b r = Inr v
       \<and> convert rnd' v Boolean b r = Inr v"
proof (cases "x = 0")
  case True
  with assms(3) have "percent_to_area rnd (area_to_percent rnd x a) a = 0"
    by (simp add: percent_to_area_def area_to_percent_def)
  with True assms(1) show ?thesis by simp
next
  case False
  with assms(4) round_trip_error [OF assms(2) assms(1), of x]
  have "\<bar>percent_to_area rnd (area_to_percent rnd x a) a - x\<bar> \<le> \<bar>x\<bar> / 10 ^ 9"
    by blast
  with assms(1) show ?thesis by simp
qed

theorem unit_round_trip_witness:
  "(0::real) < 3
   \<and> round_to_53_bits 0 = 0
   \<and> binary64 (1 / 3) = Finite (6004799503160661 / 18014398509481984)
   \<and> in_normal_range (1 / 3) \<and> in_normal_range (1 / 3 * 100)
   \<and> in_normal_range (1 * 100) \<and> in_normal_range 1
   \<and> convert round_to_53_bits (Numeric 1) Area 3 Requested_percent_of_plot
       = Inr (Numeric (area_to_percent round_to_53_bits 1 3))
   \<and> convert round_to_53_bits (Numeric (area_to_percent round_to_53_bits 1 3))
        Percent_of_plot 3 Requested_area
       = Inr (Numeric (percent_to_area round_to_53_bits (area_to_percent round_to_53_bits 1 3) 3))
   \<and> \<bar>percent_to_area round_to_53_bits (area_to_percent round_to_53_bits 1 3) 3 - 1\<bar>
       \<le> \<bar>1\<bar> / 10 ^ 9
   \<and> convert round_to_53_bits (Textual ''forest'') Categorical 0 Requested_percent_of_plot
       = Inr (Textual ''forest'')"
proof -
  have h2: "\<forall>y. min_normal \<le> \<bar>y\<bar> \<and> \<bar>y\<bar> \<le> max_binary64 \<longrightarrow>
              \<bar>round_to_53_bits y - y\<bar> \<le> \<bar>y\<bar> / 2 ^ 53"
    using round_to_53_bits_error by blast
  have h4: "in_normal_range (1 / 3) \<and> in_normal_range (1 / 3 * 100)
           \<and> in_normal_range (1 * 100) \<and> in_normal_range 1"
    using min_normal_small overflow_bound_large by (simp add: in_normal_range_def)
  then have h4': "(1::real) \<noteq> 0 \<longrightarrow> in_normal_range (1 / 3) \<and> in_normal_range (1 / 3 * 100)
           \<and> in_normal_range (1 * 100) \<and> in_normal_range 1" by simp
  have "min_normal \<le> \<bar>1 / 3 :: real\<bar>" "\<bar>1 / 3 :: real\<bar> \<le> max_binary64"
    using min_normal_small overflow_bound_large overflow_bound_pos
    by (simp_all add: max_binary64_def field_simps)
  from binary64_finite [OF this]
  have b: "binary64 (1 / 3) = Finite (6004799503160661 / 18014398509481984)"
    by (simp add: round_third)
  from unit_round_trip [OF _ h2 round_to_53_bits_zero h4', of round_to_53_bits
      "Textual ''forest''" 0 Requested_percent_of_plot]
  show ?thesis
    using h4 b round_to_53_bits_zero by simp
qed

subsection \<open>Repeated runs and the order of the plots\<close>

lemma classify_Inr_iff:
  "classify source thresholds rule rows = Inr out \<longleftrightarrow>
     length out = length rows
     \<and> (\<forall>i < length rows. classify_row source thresholds rule (rows ! i) = Inr (out ! i))"
proof (induction rows arbitrary: out)
  case Nil
  then show ?case by auto
next
  case (Cons row rows)
  show ?case
  proof (cases out)
    case Nil
    then show ?thesis by (auto split: sum.splits)
  next
    case (Cons x xs)
    have "(\<forall>i < length (row # rows). classify_row source thresholds rule ((row # rows) ! i)
              = Inr ((x # xs) ! i))
          \<longleftrightarrow> classify_row source thresholds rule row = Inr x
              \<and> (\<forall>i < length rows. classify_row source thresholds rule (rows ! i) = Inr (xs ! i))"
      by (auto simp: nth_Cons split: nat.splits)
    with Cons Cons.IH [of xs] show ?thesis
      by (auto split: sum.splits)
  qed
qed

lemma classify_reordered:
  assumes "classify source thresholds rule rows = Inr out"
    and "\<forall>i \<in> set idxs. i < length rows"
  shows "classify source thresholds rule (map ((!) rows) idxs) = Inr (map ((!) out) idxs)"
  using assms by (simp add: classify_Inr_iff)

text \<open>
  C8. With the collaborators answering the same call the same way, a request run a
  second time, on the configuration the first run left behind, has the outcome of the
  first run: the same response, with its statistics table and risk labels, or the same
  error. The classification gives each plot the states and the label of its own row,
  whatever the other rows are; hence a table whose rows are picked in any order from a
  classified table is classified, with the results of the rows it picks in that order.
\<close>

theorem repeated_invocation_same_result:
  "outcome (analyze_plots e s request (config_after (analyze_plots e s request config)))
     = outcome (analyze_plots e s request config)
   \<and> (classify source thresholds rule rows = Inr out \<and> (\<forall>i \<in> set idxs. i < length rows) \<longrightarrow>
        classify source thresholds rule (map ((!) rows) idxs) = Inr (map ((!) out) idxs))
   \<and> (classify source thresholds rule rows = Inr out \<longrightarrow>
        length out = length rows
        \<and> (\<forall>i < length rows. classify_row source thresholds rule (rows ! i) = Inr (out ! i)))"
proof (intro conjI impI)
  from config_after_update [of e s request config] obtain u where
    "config_after (analyze_plots e s request config) = config\<lparr>percent_or_ha := u\<rparr>" ..
  then show "outcome (analyze_plots e s request (config_after (analyze_plots e s request config)))
     = outcome (analyze_plots e s request config)"
    by (simp add: analyze_plots_outcome_independent)
next
  assume "classify source thresholds rule rows = Inr out \<and> (\<forall>i \<in> set idxs. i < length rows)"
  then show "classify source thresholds rule (map ((!) rows) idxs) = Inr (map ((!) out) idxs)"
    by (simp add: classify_reordered)
next
  assume "classify source thresholds rule rows = Inr out"
  then show "length out = length rows"
    by (simp add: classify_Inr_iff)
next
  assume "classify source thresholds rule rows = Inr out"
  then show "\<forall>i < length rows. classify_row source thresholds rule (rows ! i) = Inr (out ! i)"
    by (simp add: classify_Inr_iff)
qed

theorem repeated_invocation_same_result_witness:
  "outcome (analyze_plots failing_env settings sample_request
      (config_after (analyze_plots failing_env settings sample_request \<lparr>percent_or_ha = ''ha''\<rparr>)))
     = Inl (HTTPException 500 ''Failed to run analysis: Computation timed out.'')
   \<and> classify scenario_source (\<lambda>k. 10) placeholder_rule [scenario_row, cleared_row] =
       Inr [(\<lparr>state_1 = exceeded, state_2 = not_exceeded, state_3 = unknown,
              state_4 = not_exceeded\<rparr>, more_info_needed),
            (\<lparr>state_1 = not_exceeded, state_2 = exceeded, state_3 = exceeded,
              state_4 = unknown\<rparr>, more_info_needed)]
   \<and> classify scenario_source (\<lambda>k. 10) placeholder_rule
        (map ((!) [scenario_row, cleared_row]) [1, 0]) =
       Inr [(\<lparr>state_1 = not_exceeded, state_2 = exceeded, state_3 = exceeded,
              state_4 = unknown\<rparr>, more_info_needed),
            (\<lparr>state_1 = exceeded, state_2 = not_exceeded, state_3 = unknown,
              state_4 = not_exceeded\<rparr>, more_info_needed)]"
proof -
  have c: "classify scenario_source (\<lambda>k. 10) placeholder_rule [scenario_row, cleared_row] =
       Inr [(\<lparr>state_1 = exceeded, state_2 = not_exceeded, state_3 = unknown,
              state_4 = not_exceeded\<rparr>, more_info_needed),
            (\<lparr>state_1 = not_exceeded, state_2 = exceeded, state_3 = exceeded,
              state_4 = unknown\<rparr>, more_info_needed)]"
    by (simp add: classify_row_def indicator_def scenario_row_def cleared_row_def
        scenario_source_def placeholder_rule_def Let_def)
  have i: "\<forall>i \<in> set [1, 0::nat]. i < length [scenario_row, cleared_row]" by simp
  from repeated_invocation_same_result [of failing_env settings sample_request
      "\<lparr>percent_or_ha = ''ha''\<rparr>" scenario_source "\<lambda>k. 10" placeholder_rule
      "[scenario_row, cleared_row]" _ "[1, 0]"]
  show ?thesis
    using c i by (simp add: failed_run outcome_def)
qed

end
